theory Spec2Isabelle
  imports Main "HOL-Library.Word"
begin

section \<open>The voting contract FHEMVoting\<close>

subsection \<open>Solidity value types\<close>

type_synonym uint256 = "256 word"
type_synonym uint32 = "32 word"
type_synonym address = "160 word"
type_synonym bytes32 = "256 word"
type_synonym byte = "8 word"

text \<open>
  An \<open>euint32\<close> is an opaque handle of the FHEVM library. On chain the library computes
  symbolically: \<open>FHE.asEuint32\<close> and \<open>FHE.add\<close> return the handle that stands for the
  operation and its operands. The handles are therefore the terms over these two
  operations; \<open>euint32_unset\<close> is the zero handle of a storage slot never written.
\<close>

datatype euint32 =
    euint32_unset
  | FHE_asEuint32 uint32
  | FHE_add euint32 euint32

record Proposal =
  id_f :: uint256
  title :: string
  description :: string
  creator :: address
  createdAt :: uint256
  votingEnd :: uint256
  encryptedYesCount :: euint32
  encryptedNoCount :: euint32
  executed :: bool
  active :: bool

record VoteCommitment =
  voteHash :: bytes32
  revealed :: bool

text \<open>
  Storage. A Solidity mapping is total: a key never written reads as the zero value.
  The last field is not storage of the contract: it is the list of permissions the
  library's access control holds from one transaction to the next, a pair
  \<open>(handle, account)\<close> for every \<open>FHE.allowThis\<close> and \<open>FHE.allow\<close> that returned.
\<close>

record storage =
  proposals :: "uint256 \<Rightarrow> Proposal"
  voteCommitments :: "uint256 \<Rightarrow> address \<Rightarrow> VoteCommitment"
  voterWeight :: "address \<Rightarrow> uint256"
  proposalCount :: uint256
  owner :: address
  votingOpen :: bool
  acl_allowed :: "(euint32 \<times> address) list"

definition VOTING_DURATION :: uint256 where
  "VOTING_DURATION = 604800"

definition MIN_VOTING_POWER :: uint256 where
  "MIN_VOTING_POWER = 100"

definition one_day :: uint256 where
  "one_day = 86400"

text \<open>
  The transaction context: \<open>msg.sender\<close>, \<open>block.timestamp\<close> and \<open>address(this)\<close>.
\<close>

record env =
  msg_sender :: address
  block_timestamp :: uint256
  address_this :: address

datatype event =
    ProposalCreated uint256 string address uint256
  | VoteCommitted uint256 address bytes32
  | VoteRevealed uint256 address bool uint256
  | ProposalExecuted uint256 bool uint256

text \<open>
  What a call does that an observer sees: the events it emits and the permissions it
  grants on handles (\<open>FHE.allowThis\<close>, \<open>FHE.allow\<close>), in program order.
\<close>

datatype effect =
    Emit event
  | FHE_allowThis euint32
  | FHE_allow euint32 address

text \<open>
  A failed \<open>require\<close> reverts with its reason string; checked arithmetic of Solidity 0.8
  reverts with \<open>Panic(0x11)\<close> on overflow; the library reverts with \<open>ACLNotAllowed\<close>
  when the calling contract may not use an operand and with \<open>SenderNotAllowed\<close> when
  it grants a permission on a handle it may not use.
\<close>

datatype revert =
    Revert string
  | Panic nat
  | ACLNotAllowed euint32 address
  | SenderNotAllowed address

type_synonym 'a result = "revert + 'a"

definition checked_add :: "uint256 \<Rightarrow> uint256 \<Rightarrow> uint256 result" where
  "checked_add a b = (if unat a + unat b < 2 ^ 256 then Inr (a + b) else Inl (Panic 17))"

definition zero_Proposal :: Proposal where
  "zero_Proposal = \<lparr>id_f = 0, title = [], description = [], creator = 0, createdAt = 0,
     votingEnd = 0, encryptedYesCount = euint32_unset, encryptedNoCount = euint32_unset,
     executed = False, active = False\<rparr>"

definition zero_VoteCommitment :: VoteCommitment where
  "zero_VoteCommitment = \<lparr>voteHash = 0, revealed = False\<rparr>"

text \<open>\<open>constructor()\<close>: the deployer becomes the owner and voting is open.\<close>

definition constructor :: "env \<Rightarrow> storage" where
  "constructor e = \<lparr>proposals = (\<lambda>_. zero_Proposal),
     voteCommitments = (\<lambda>_ _. zero_VoteCommitment),
     voterWeight = (\<lambda>_. 0), proposalCount = 0,
     owner = msg_sender e, votingOpen = True, acl_allowed = []\<rparr>"

subsection \<open>The FHEVM library\<close>

text \<open>
  Modelled from the repository's own documentation of the library, which is not code of
  this repository; the contract imports it. Its permission rule is the one documented
  there (\<open>FHECounter.sol\<close>: without
  \<open>FHE.allowThis\<close> the contract cannot use the value in future operations;
  \<open>examples/fhevm-voting.md\<close>: the first operation succeeds, the next one fails for want
  of the contract's permission). A contract may use a handle that an operation of the
  running transaction returned to it, or one on which a permission for it was stored
  earlier. The permissions of the running transaction are threaded through the calls as
  a list and are gone when the transaction ends.
\<close>

type_synonym permissions = "(euint32 \<times> address) list"

definition isAllowed :: "storage \<Rightarrow> permissions \<Rightarrow> euint32 \<Rightarrow> address \<Rightarrow> bool" where
  "isAllowed s transient h account \<longleftrightarrow>
     (h, account) \<in> set transient \<or> (h, account) \<in> set (acl_allowed s)"

definition asEuint32 :: "env \<Rightarrow> uint32 \<Rightarrow> permissions \<Rightarrow> euint32 \<times> permissions" where
  "asEuint32 e v transient =
     (FHE_asEuint32 v, (FHE_asEuint32 v, address_this e) # transient)"

definition fhe_add :: "env \<Rightarrow> storage \<Rightarrow> permissions \<Rightarrow> euint32 \<Rightarrow> euint32
    \<Rightarrow> revert + (euint32 \<times> permissions)" where
  "fhe_add e s transient a b =
     (if \<not> isAllowed s transient a (address_this e)
        then Inl (ACLNotAllowed a (address_this e))
      else if \<not> isAllowed s transient b (address_this e)
        then Inl (ACLNotAllowed b (address_this e))
      else Inr (FHE_add a b, (FHE_add a b, address_this e) # transient))"

definition acl_allow :: "env \<Rightarrow> storage \<Rightarrow> permissions \<Rightarrow> euint32 \<Rightarrow> address
    \<Rightarrow> revert + storage" where
  "acl_allow e s transient h account =
     (if \<not> isAllowed s transient h (address_this e)
        then Inl (SenderNotAllowed (address_this e))
      else Inr (s\<lparr>acl_allowed := (h, account) # acl_allowed s\<rparr>))"

subsection \<open>Hashing\<close>

text \<open>
  \<open>abi.encodePacked(support, nonce, msg.sender)\<close> is one byte for the bool, 32 bytes
  for the uint256 and 20 bytes for the address, big-endian. \<open>keccak256\<close> is the EVM's
  built-in hash, not code of the contract: every function that hashes takes it as its
  first argument \<open>K\<close>.
\<close>

definition be_bytes :: "nat \<Rightarrow> 'a::len word \<Rightarrow> byte list" where
  "be_bytes n w = map (\<lambda>i. ucast (drop_bit (8 * i) w)) (rev [0..<n])"

definition encodePacked :: "bool \<Rightarrow> uint256 \<Rightarrow> address \<Rightarrow> byte list" where
  "encodePacked support nonce sender =
     (if support then 1 else 0) # be_bytes 32 nonce @ be_bytes 20 sender"

definition generateVoteHash :: "(byte list \<Rightarrow> bytes32) \<Rightarrow> env \<Rightarrow> bool \<Rightarrow> uint256 \<Rightarrow> bytes32" where
  "generateVoteHash K e support nonce = K (encodePacked support nonce (msg_sender e))"

subsection \<open>The external functions\<close>

definition proposal_exists :: "storage \<Rightarrow> uint256 \<Rightarrow> bool" where
  "proposal_exists s proposalId \<longleftrightarrow> proposalId \<le> proposalCount s \<and> proposalId > 0"

definition setVoterWeight :: "env \<Rightarrow> address \<Rightarrow> uint256 \<Rightarrow> storage \<Rightarrow> (storage \<times> effect list) result" where
  "setVoterWeight e voter weight s =
     (if msg_sender e \<noteq> owner s then Inl (Revert ''Only owner can operate'')
      else Inr (s\<lparr>voterWeight := (voterWeight s)(voter := weight)\<rparr>, []))"

text \<open>The loop of \<open>setMultipleVoterWeights\<close> over two arrays of equal length.\<close>

fun set_weights :: "address list \<Rightarrow> uint256 list \<Rightarrow> (address \<Rightarrow> uint256) \<Rightarrow> (address \<Rightarrow> uint256)" where
  "set_weights (v # voters) (w # weights) m = set_weights voters weights (m(v := w))"
| "set_weights _ _ m = m"

definition setMultipleVoterWeights :: "env \<Rightarrow> address list \<Rightarrow> uint256 list \<Rightarrow> storage \<Rightarrow> (storage \<times> effect list) result" where
  "setMultipleVoterWeights e voters weights s =
     (if msg_sender e \<noteq> owner s then Inl (Revert ''Only owner can operate'')
      else if length voters \<noteq> length weights then Inl (Revert ''Array length mismatch'')
      else Inr (s\<lparr>voterWeight := set_weights voters weights (voterWeight s)\<rparr>, []))"

definition createProposal :: "env \<Rightarrow> string \<Rightarrow> string \<Rightarrow> storage \<Rightarrow> (storage \<times> effect list) result" where
  "createProposal e ttl descr s =
     (if \<not> votingOpen s then Inl (Revert ''Voting system is closed'')
      else if \<not> voterWeight s (msg_sender e) \<ge> MIN_VOTING_POWER
        then Inl (Revert ''Insufficient voting power'')
      else case checked_add (proposalCount s) 1 of
        Inl err \<Rightarrow> Inl err
      | Inr proposalId \<Rightarrow>
         (case checked_add (block_timestamp e) VOTING_DURATION of
            Inl err \<Rightarrow> Inl err
          | Inr vEnd \<Rightarrow>
              let (yes0, transient1) = asEuint32 e 0 [];
                  (no0, transient2) = asEuint32 e 0 transient1;
                  newProposal = (proposals s proposalId)
                    \<lparr>id_f := proposalId, title := ttl, description := descr,
                     creator := msg_sender e, createdAt := block_timestamp e,
                     votingEnd := vEnd, active := True,
                     encryptedYesCount := yes0,
                     encryptedNoCount := no0\<rparr>
              in Inr (s\<lparr>proposalCount := proposalId,
                        proposals := (proposals s)(proposalId := newProposal)\<rparr>,
                      [Emit (ProposalCreated proposalId ttl (msg_sender e) vEnd)])))"

definition commitVote :: "env \<Rightarrow> uint256 \<Rightarrow> bytes32 \<Rightarrow> storage \<Rightarrow> (storage \<times> effect list) result" where
  "commitVote e proposalId vHash s =
     (if \<not> votingOpen s then Inl (Revert ''Voting system is closed'')
      else if \<not> voterWeight s (msg_sender e) > 0 then Inl (Revert ''No voting permission'')
      else if \<not> proposal_exists s proposalId then Inl (Revert ''Proposal does not exist'')
      else if \<not> active (proposals s proposalId) then Inl (Revert ''Proposal not active'')
      else if \<not> block_timestamp e < votingEnd (proposals s proposalId)
        then Inl (Revert ''Voting period ended'')
      else if \<not> voteHash (voteCommitments s proposalId (msg_sender e)) = 0
        then Inl (Revert ''Vote already committed'')
      else Inr (s\<lparr>voteCommitments := (voteCommitments s)
                    (proposalId := (voteCommitments s proposalId)
                       (msg_sender e := (voteCommitments s proposalId (msg_sender e))
                          \<lparr>voteHash := vHash\<rparr>))\<rparr>,
                [Emit (VoteCommitted proposalId (msg_sender e) vHash)]))"

definition revealVote :: "(byte list \<Rightarrow> bytes32) \<Rightarrow> env \<Rightarrow> uint256 \<Rightarrow> bool \<Rightarrow> uint256 \<Rightarrow> storage \<Rightarrow> (storage \<times> effect list) result" where
  "revealVote K e proposalId support nonce s =
     (if \<not> proposal_exists s proposalId then Inl (Revert ''Proposal does not exist'')
      else if \<not> block_timestamp e \<ge> votingEnd (proposals s proposalId)
        then Inl (Revert ''Voting period not ended'')
      else if \<not> voteHash (voteCommitments s proposalId (msg_sender e)) \<noteq> 0
        then Inl (Revert ''No vote commitment found'')
      else if revealed (voteCommitments s proposalId (msg_sender e))
        then Inl (Revert ''Vote already revealed'')
      else if \<not> K (encodePacked support nonce (msg_sender e))
                = voteHash (voteCommitments s proposalId (msg_sender e))
        then Inl (Revert ''Vote verification failed'')
      else
        let s1 = s\<lparr>voteCommitments := (voteCommitments s)
                    (proposalId := (voteCommitments s proposalId)
                       (msg_sender e := (voteCommitments s proposalId (msg_sender e))
                          \<lparr>revealed := True\<rparr>))\<rparr>;
            weight = voterWeight s1 (msg_sender e);
            (encryptedWeight, transient1) = asEuint32 e (ucast weight) [];
            proposal = proposals s1 proposalId
        in if support then
             (case fhe_add e s1 transient1 (encryptedYesCount proposal) encryptedWeight of
                Inl err \<Rightarrow> Inl err
              | Inr (yes, transient2) \<Rightarrow>
                 (case acl_allow e
                         (s1\<lparr>proposals := (proposals s1)
                            (proposalId := proposal\<lparr>encryptedYesCount := yes\<rparr>)\<rparr>)
                         transient2 yes (address_this e) of
                    Inl err \<Rightarrow> Inl err
                  | Inr s2 \<Rightarrow>
                     (case acl_allow e s2 transient2 yes (msg_sender e) of
                        Inl err \<Rightarrow> Inl err
                      | Inr s3 \<Rightarrow>
                          Inr (s3, [FHE_allowThis yes, FHE_allow yes (msg_sender e),
                                Emit (VoteRevealed proposalId (msg_sender e) support weight)]))))
           else
             (case fhe_add e s1 transient1 (encryptedNoCount proposal) encryptedWeight of
                Inl err \<Rightarrow> Inl err
              | Inr (no, transient2) \<Rightarrow>
                 (case acl_allow e
                         (s1\<lparr>proposals := (proposals s1)
                            (proposalId := proposal\<lparr>encryptedNoCount := no\<rparr>)\<rparr>)
                         transient2 no (address_this e) of
                    Inl err \<Rightarrow> Inl err
                  | Inr s2 \<Rightarrow>
                     (case acl_allow e s2 transient2 no (msg_sender e) of
                        Inl err \<Rightarrow> Inl err
                      | Inr s3 \<Rightarrow>
                          Inr (s3, [FHE_allowThis no, FHE_allow no (msg_sender e),
                                Emit (VoteRevealed proposalId (msg_sender e) support weight)])))))"

definition executeProposal :: "env \<Rightarrow> uint256 \<Rightarrow> storage \<Rightarrow> (storage \<times> effect list) result" where
  "executeProposal e proposalId s =
     (if \<not> proposal_exists s proposalId then Inl (Revert ''Proposal does not exist'')
      else case checked_add (votingEnd (proposals s proposalId)) one_day of
        Inl err \<Rightarrow> Inl err
      | Inr revealEnd \<Rightarrow>
          if \<not> block_timestamp e \<ge> revealEnd then Inl (Revert ''Reveal period not ended'')
          else if executed (proposals s proposalId) then Inl (Revert ''Proposal already executed'')
          else if \<not> active (proposals s proposalId) then Inl (Revert ''Proposal not active'')
          else Inr (s\<lparr>proposals := (proposals s)
                        (proposalId := (proposals s proposalId)\<lparr>executed := True\<rparr>)\<rparr>,
                    [Emit (ProposalExecuted proposalId True (block_timestamp e))]))"

definition hasUserVoted :: "storage \<Rightarrow> uint256 \<Rightarrow> address \<Rightarrow> bool" where
  "hasUserVoted s proposalId user \<longleftrightarrow> voteHash (voteCommitments s proposalId user) \<noteq> 0"

definition hasUserRevealed :: "storage \<Rightarrow> uint256 \<Rightarrow> address \<Rightarrow> bool" where
  "hasUserRevealed s proposalId user \<longleftrightarrow> revealed (voteCommitments s proposalId user)"

definition setVotingOpen :: "env \<Rightarrow> bool \<Rightarrow> storage \<Rightarrow> (storage \<times> effect list) result" where
  "setVotingOpen e opn s =
     (if msg_sender e \<noteq> owner s then Inl (Revert ''Only owner can operate'')
      else Inr (s\<lparr>votingOpen := opn\<rparr>, []))"

definition pauseProposal :: "env \<Rightarrow> uint256 \<Rightarrow> storage \<Rightarrow> (storage \<times> effect list) result" where
  "pauseProposal e proposalId s =
     (if msg_sender e \<noteq> owner s then Inl (Revert ''Only owner can operate'')
      else if \<not> proposal_exists s proposalId then Inl (Revert ''Proposal does not exist'')
      else Inr (s\<lparr>proposals := (proposals s)
                    (proposalId := (proposals s proposalId)\<lparr>active := False\<rparr>)\<rparr>, []))"

subsection \<open>Transactions\<close>

text \<open>
  The state-changing entry points of the contract. A transaction that reverts leaves the
  storage as it was; one that returns installs the storage it computed.
\<close>

datatype call =
    SetVoterWeight address uint256
  | SetMultipleVoterWeights "address list" "uint256 list"
  | CreateProposal string string
  | CommitVote uint256 bytes32
  | RevealVote uint256 bool uint256
  | ExecuteProposal uint256
  | SetVotingOpen bool
  | PauseProposal uint256

fun dispatch :: "(byte list \<Rightarrow> bytes32) \<Rightarrow> env \<Rightarrow> call \<Rightarrow> storage \<Rightarrow> (storage \<times> effect list) result" where
  "dispatch K e (SetVoterWeight v w) s = setVoterWeight e v w s"
| "dispatch K e (SetMultipleVoterWeights vs ws) s = setMultipleVoterWeights e vs ws s"
| "dispatch K e (CreateProposal t d) s = createProposal e t d s"
| "dispatch K e (CommitVote p h) s = commitVote e p h s"
| "dispatch K e (RevealVote p b n) s = revealVote K e p b n s"
| "dispatch K e (ExecuteProposal p) s = executeProposal e p s"
| "dispatch K e (SetVotingOpen b) s = setVotingOpen e b s"
| "dispatch K e (PauseProposal p) s = pauseProposal e p s"

definition transact :: "(byte list \<Rightarrow> bytes32) \<Rightarrow> env \<Rightarrow> call \<Rightarrow> storage \<Rightarrow> storage" where
  "transact K e c s = (case dispatch K e c s of Inl _ \<Rightarrow> s | Inr (s', _) \<Rightarrow> s')"

fun run :: "(byte list \<Rightarrow> bytes32) \<Rightarrow> (env \<times> call) list \<Rightarrow> storage \<Rightarrow> storage" where
  "run K [] s = s"
| "run K ((e, c) # txs) s = run K txs (transact K e c s)"


text \<open>
  The well-formedness of the stored deadlines: every existing proposal ends exactly
  \<open>VOTING_DURATION\<close> after its creation, without wrap-around.
\<close>

definition votingEnd_wf :: "storage \<Rightarrow> bool" where
  "votingEnd_wf s \<longleftrightarrow> (\<forall>p. proposal_exists s p \<longrightarrow>
     createdAt (proposals s p) \<le> votingEnd (proposals s p) \<and>
     unat (votingEnd (proposals s p)) = unat (createdAt (proposals s p)) + 604800)"

subsection \<open>A concrete run\<close>

text \<open>
  A small scenario on which the theorems below are exercised: the owner (address 1)
  deploys the contract at address 9, gives address 2 the weight \<open>2^32 + 5\<close>, address 2 creates proposal 1 at time
  2000 and commits to a yes vote with nonce 7 at time 3000. \<open>demo_keccak\<close> stands in for
  the hash in these runs only.
\<close>

definition demo_keccak :: "byte list \<Rightarrow> bytes32" where
  "demo_keccak bs = of_nat (foldr (\<lambda>b acc. unat b + 3 * acc) bs 1)"

definition demo_owner :: "uint256 \<Rightarrow> env" where
  "demo_owner t = \<lparr>msg_sender = 1, block_timestamp = t, address_this = 9\<rparr>"

definition demo_alice :: "uint256 \<Rightarrow> env" where
  "demo_alice t = \<lparr>msg_sender = 2, block_timestamp = t, address_this = 9\<rparr>"

definition demo_created :: storage where
  "demo_created = run demo_keccak
     [(demo_owner 1000, SetVoterWeight 2 4294967301),
      (demo_alice 2000, CreateProposal ''t'' ''d'')]
     (constructor (demo_owner 1000))"

definition demo_committed :: storage where
  "demo_committed = transact demo_keccak (demo_alice 3000)
     (CommitVote 1 32305409459104507816624093) demo_created"

text \<open>
  The same storage with a permission of the contract (address 9) on the handle of the
  initial counters, as \<open>FHE.allowThis\<close> would have stored it.
\<close>

definition demo_granted :: storage where
  "demo_granted = demo_committed\<lparr>acl_allowed := [(FHE_asEuint32 0, 9)]\<rparr>"

section \<open>The documentation generator\<close>

subsection \<open>Strings\<close>

text \<open>
  A JavaScript string is a sequence of UTF-16 code units. \<open>js\<close> turns an ASCII literal
  into one, \<open>nl\<close> is the line feed.
\<close>

type_synonym code_unit = "16 word"
type_synonym jsstring = "code_unit list"

definition code_unit_of :: "char \<Rightarrow> code_unit" where
  "code_unit_of c = of_nat (of_char c)"

definition js :: "string \<Rightarrow> jsstring" where
  "js s = map code_unit_of s"

definition nl :: jsstring where
  "nl = [10]"

text \<open>
  The failures the script can meet: a \<open>SyntaxError\<close> when the module is compiled, a
  \<open>TypeError\<close> and the errors of \<open>fs\<close> when it runs.
\<close>

datatype js_error = SyntaxError | TypeError | ENOENT | EISDIR | ENOTDIR

text \<open>
  The character classes of the regular expressions: \<open>\s\<close>, \<open>\w\<close> and the line
  terminators that \<open>.\<close> does not match.
\<close>

definition is_space :: "code_unit \<Rightarrow> bool" where
  "is_space c \<longleftrightarrow>
     c \<in> set [9, 10, 11, 12, 13, 32, 160, 5760, 8232, 8233, 8239, 8287, 12288, 65279]
     \<or> (8192 \<le> c \<and> c \<le> 8202)"

definition is_word :: "code_unit \<Rightarrow> bool" where
  "is_word c \<longleftrightarrow> (97 \<le> c \<and> c \<le> 122) \<or> (65 \<le> c \<and> c \<le> 90) \<or> (48 \<le> c \<and> c \<le> 57) \<or> c = 95"

definition is_line_terminator :: "code_unit \<Rightarrow> bool" where
  "is_line_terminator c \<longleftrightarrow> c \<in> set [10, 13, 8232, 8233]"

text \<open>\<open>String.prototype.includes\<close> and \<open>split("\n")\<close>.\<close>

fun starts_with :: "jsstring \<Rightarrow> jsstring \<Rightarrow> bool" where
  "starts_with s [] = True"
| "starts_with [] (p # ps) = False"
| "starts_with (c # cs) (p # ps) = (c = p \<and> starts_with cs ps)"

fun str_includes :: "jsstring \<Rightarrow> jsstring \<Rightarrow> bool" where
  "str_includes [] p = (p = [])"
| "str_includes (c # cs) p = (starts_with (c # cs) p \<or> str_includes cs p)"

fun split_nl :: "jsstring \<Rightarrow> jsstring list" where
  "split_nl [] = [[]]"
| "split_nl (c # cs) =
     (let r = split_nl cs in if c = 10 then [] # r else (c # hd r) # tl r)"

subsection \<open>extractNatSpec\<close>

text \<open>
  \<open>line.replace(/^\s*\/\/\/\s?/, "")\<close>: leading white space, three slashes and at most
  one white-space character after them are removed when the line starts so.
\<close>

definition strip_doc_prefix :: "jsstring \<Rightarrow> jsstring" where
  "strip_doc_prefix l =
     (let r = dropWhile is_space l in
      if starts_with r (js ''///'') then
        (case drop 3 r of
           [] \<Rightarrow> []
         | c # cs \<Rightarrow> if is_space c then cs else c # cs)
      else l)"

text \<open>
  \<open>line.match(/(?:function|modifier|contract)\s+(\w+)/)\<close>: the leftmost position where a
  keyword, white space and a word follow each other; the result is the word.
\<close>

definition match_keyword :: "jsstring \<Rightarrow> jsstring \<Rightarrow> jsstring option" where
  "match_keyword kw s =
     (if starts_with s kw then
        (let r = drop (length kw) s;
             w = takeWhile is_word (dropWhile is_space r)
         in if takeWhile is_space r \<noteq> [] \<and> w \<noteq> [] then Some w else None)
      else None)"

definition match_declaration_here :: "jsstring \<Rightarrow> jsstring option" where
  "match_declaration_here s =
     (case match_keyword (js ''function'') s of
        Some w \<Rightarrow> Some w
      | None \<Rightarrow>
         (case match_keyword (js ''modifier'') s of
            Some w \<Rightarrow> Some w
          | None \<Rightarrow> match_keyword (js ''contract'') s))"

fun match_declaration :: "jsstring \<Rightarrow> jsstring option" where
  "match_declaration [] = None"
| "match_declaration (c # cs) =
     (case match_declaration_here (c # cs) of
        Some w \<Rightarrow> Some w
      | None \<Rightarrow> match_declaration cs)"

text \<open>
  \<open>lines[i]\<close> is \<open>undefined\<close> out of range, and calling a method on it throws.
  The three loops over the shared index \<open>i\<close> follow.
\<close>

definition line_at :: "jsstring list \<Rightarrow> nat \<Rightarrow> js_error + jsstring" where
  "line_at lines i = (if i < length lines then Inr (lines ! i) else Inl TypeError)"

function collect_doc_block :: "jsstring list \<Rightarrow> nat \<Rightarrow> jsstring \<Rightarrow> js_error + (nat \<times> jsstring)" where
  "collect_doc_block lines i docBlock =
     (if i < length lines then
        (case line_at lines i of
           Inl e \<Rightarrow> Inl e
         | Inr l \<Rightarrow>
             if str_includes l (js ''///'')
             then collect_doc_block lines (i + 1) (docBlock @ strip_doc_prefix l @ nl)
             else Inr (i, docBlock))
      else Inr (i, docBlock))"
  by pat_completeness auto
termination
  by (relation "measure (\<lambda>(lines, i, docBlock). length lines - i)") auto

definition is_declaration_line :: "jsstring \<Rightarrow> bool" where
  "is_declaration_line l \<longleftrightarrow>
     str_includes l (js ''function '') \<or> str_includes l (js ''modifier '')
     \<or> str_includes l (js ''contract '')"

function find_declaration ::
  "jsstring list \<Rightarrow> nat \<Rightarrow> jsstring \<Rightarrow> (jsstring \<rightharpoonup> jsstring)
     \<Rightarrow> js_error + (nat \<times> (jsstring \<rightharpoonup> jsstring))" where
  "find_declaration lines i docBlock natSpecMap =
     (if i < length lines then
        (case line_at lines i of
           Inl e \<Rightarrow> Inl e
         | Inr l \<Rightarrow>
             if is_declaration_line l then
               (case match_declaration l of
                  Some functionName \<Rightarrow> Inr (i, natSpecMap(functionName \<mapsto> docBlock))
                | None \<Rightarrow> Inr (i, natSpecMap))
             else find_declaration lines (i + 1) docBlock natSpecMap)
      else Inr (i, natSpecMap))"
  by pat_completeness auto
termination
  by (relation "measure (\<lambda>(lines, i, docBlock, natSpecMap). length lines - i)") auto

declare collect_doc_block.simps [simp del] find_declaration.simps [simp del]

lemma collect_doc_block_mono:
  "collect_doc_block lines i d = Inr (i', d') \<Longrightarrow> i \<le> i'"
proof (induction lines i d rule: collect_doc_block.induct)
  case (1 lines i docBlock)
  show ?case
  proof (cases "i < length lines \<and> str_includes (lines ! i) (js ''///'')")
    case True
    then have "collect_doc_block lines i docBlock
        = collect_doc_block lines (i + 1) (docBlock @ strip_doc_prefix (lines ! i) @ nl)"
      by (subst collect_doc_block.simps) (simp add: line_at_def)
    with "1.prems" have "collect_doc_block lines (i + 1)
        (docBlock @ strip_doc_prefix (lines ! i) @ nl) = Inr (i', d')"
      by simp
    with True have "i + 1 \<le> i'"
      by (intro "1.IH" [of "lines ! i"]) (simp_all add: line_at_def)
    then show ?thesis by simp
  next
    case False
    then have "collect_doc_block lines i docBlock = Inr (i, docBlock)"
      by (subst collect_doc_block.simps) (auto simp: line_at_def)
    with "1.prems" show ?thesis by simp
  qed
qed

lemma find_declaration_mono:
  "find_declaration lines i d m = Inr (i', m') \<Longrightarrow> i \<le> i'"
proof (induction lines i d m rule: find_declaration.induct)
  case (1 lines i docBlock natSpecMap)
  show ?case
  proof (cases "i < length lines \<and> \<not> is_declaration_line (lines ! i)")
    case True
    then have "find_declaration lines i docBlock natSpecMap
        = find_declaration lines (i + 1) docBlock natSpecMap"
      by (subst find_declaration.simps) (simp add: line_at_def)
    with "1.prems" have "find_declaration lines (i + 1) docBlock natSpecMap = Inr (i', m')"
      by simp
    with True have "i + 1 \<le> i'"
      by (intro "1.IH" [of "lines ! i"]) (simp_all add: line_at_def)
    then show ?thesis by simp
  next
    case False
    then have "\<exists>x. find_declaration lines i docBlock natSpecMap = Inr (i, x)"
      by (subst find_declaration.simps) (auto simp: line_at_def split: option.splits)
    with "1.prems" show ?thesis by auto
  qed
qed

function extract_loop ::
  "jsstring list \<Rightarrow> nat \<Rightarrow> (jsstring \<rightharpoonup> jsstring) \<Rightarrow> js_error + (jsstring \<rightharpoonup> jsstring)" where
  "extract_loop lines i natSpecMap =
     (if i < length lines then
        (case line_at lines i of
           Inl e \<Rightarrow> Inl e
         | Inr l \<Rightarrow>
             if str_includes l (js ''///'') then
               (case collect_doc_block lines i [] of
                  Inl e \<Rightarrow> Inl e
                | Inr (i1, docBlock) \<Rightarrow>
                   (case find_declaration lines i1 docBlock natSpecMap of
                      Inl e \<Rightarrow> Inl e
                    | Inr (i2, natSpecMap') \<Rightarrow> extract_loop lines (i2 + 1) natSpecMap'))
             else extract_loop lines (i + 1) natSpecMap)
      else Inr natSpecMap)"
  by pat_completeness auto
termination
proof (relation "measure (\<lambda>(lines, i, natSpecMap). length lines - i)", goal_cases)
  case 1
  then show ?case by simp
next
  case (2 lines i natSpecMap l x2 i1 docBlock x2a i2 natSpecMap')
  then have "i \<le> i1" "i1 \<le> i2"
    by (metis collect_doc_block_mono, metis find_declaration_mono)
  with 2 show ?case by simp
next
  case 3
  then show ?case by simp
qed

declare extract_loop.simps [simp del]

definition extractNatSpec :: "jsstring \<Rightarrow> js_error + (jsstring \<rightharpoonup> jsstring)" where
  "extractNatSpec content = extract_loop (split_nl content) 0 Map.empty"


subsection \<open>Test titles\<close>

text \<open>
  \<open>/it\("(.+?)",/g\<close>: after \<open>it("\<close> the shortest non-empty run of characters other
  than line terminators that is followed by a double quote and a comma. The loop over
  \<open>exec\<close> resumes after each match.
\<close>

fun lazy_title :: "jsstring \<Rightarrow> jsstring \<Rightarrow> (jsstring \<times> jsstring) option" where
  \<open>lazy_title acc [] = None\<close>
| \<open>lazy_title acc (c # cs) =
     (if acc \<noteq> [] \<and> starts_with (c # cs) (js ''",'') then Some (acc, drop 2 (c # cs))
      else if is_line_terminator c then None
      else lazy_title (acc @ [c]) cs)\<close>

definition match_test_title :: "jsstring \<Rightarrow> (jsstring \<times> jsstring) option" where
  \<open>match_test_title s =
     (if starts_with s (js ''it("'') then lazy_title [] (drop 4 s) else None)\<close>

lemma lazy_title_shorter:
  "lazy_title acc r = Some (t, rest) \<Longrightarrow> length rest < length r"
  by (induction acc r rule: lazy_title.induct) (auto split: if_splits)

lemma match_test_title_shorter:
  "match_test_title s = Some (t, rest) \<Longrightarrow> length rest < length s"
  by (auto simp: match_test_title_def split: if_splits dest!: lazy_title_shorter)

function test_titles :: "jsstring \<Rightarrow> jsstring list \<Rightarrow> jsstring list" where
  "test_titles s patterns =
     (case match_test_title s of
        Some (t, rest) \<Rightarrow> test_titles rest (patterns @ [t])
      | None \<Rightarrow> (case s of [] \<Rightarrow> patterns | c # cs \<Rightarrow> test_titles cs patterns))"
  by pat_completeness auto
termination
  by (relation "measure (\<lambda>(s, patterns). length s)")
     (auto dest: match_test_title_shorter)

declare test_titles.simps [simp del]

definition extractTestPatterns :: "jsstring \<Rightarrow> jsstring list" where
  "extractTestPatterns content = test_titles content []"

subsection \<open>Values, objects and the registries\<close>

text \<open>
  The values the script handles. \<open>DOCS_CONFIG\<close> and \<open>EXAMPLES_MAP\<close> are object
  literals, so a property that is not their own is looked up in \<open>Object.prototype\<close>.
  Of a function or a string the script can only read \<open>name\<close>, \<open>description\<close>,
  \<open>contractFile\<close> and \<open>testFile\<close>: a function has a \<open>name\<close>, the rest is
  \<open>undefined\<close>. Reading a property of \<open>undefined\<close> throws.
\<close>

datatype jsval =
    JUndefined
  | JString jsstring
  | JObject "(jsstring \<times> jsval) list"
  | JFunction jsstring

definition object_prototype :: "(jsstring \<times> jsval) list" where
  "object_prototype =
     [(js ''constructor'', JFunction (js ''Object'')),
      (js ''__defineGetter__'', JFunction (js ''__defineGetter__'')),
      (js ''__defineSetter__'', JFunction (js ''__defineSetter__'')),
      (js ''hasOwnProperty'', JFunction (js ''hasOwnProperty'')),
      (js ''__lookupGetter__'', JFunction (js ''__lookupGetter__'')),
      (js ''__lookupSetter__'', JFunction (js ''__lookupSetter__'')),
      (js ''isPrototypeOf'', JFunction (js ''isPrototypeOf'')),
      (js ''propertyIsEnumerable'', JFunction (js ''propertyIsEnumerable'')),
      (js ''toString'', JFunction (js ''toString'')),
      (js ''valueOf'', JFunction (js ''valueOf'')),
      (js ''__proto__'', JObject []),
      (js ''toLocaleString'', JFunction (js ''toLocaleString''))]"

fun get_prop :: "jsval \<Rightarrow> jsstring \<Rightarrow> js_error + jsval" where
  "get_prop JUndefined k = Inl TypeError"
| "get_prop (JString s) k = Inr JUndefined"
| "get_prop (JFunction f) k = Inr (if k = js ''name'' then JString f else JUndefined)"
| "get_prop (JObject props) k =
     Inr (case map_of props k of
            Some v \<Rightarrow> v
          | None \<Rightarrow> (case map_of object_prototype k of Some v \<Rightarrow> v | None \<Rightarrow> JUndefined))"

fun truthy :: "jsval \<Rightarrow> bool" where
  "truthy JUndefined = False"
| "truthy (JString s) = (s \<noteq> [])"
| "truthy (JObject props) = True"
| "truthy (JFunction f) = True"

fun to_str :: "jsval \<Rightarrow> jsstring" where
  "to_str JUndefined = js ''undefined''"
| "to_str (JString s) = s"
| "to_str (JObject props) = js ''[object Object]''"
| "to_str (JFunction f) = js ''function '' @ f @ js ''() { [native code] }''"

fun object_keys :: "jsval \<Rightarrow> jsstring list" where
  "object_keys (JObject props) = map fst props"
| "object_keys v = []"

definition DOCS_CONFIG :: jsval where
  "DOCS_CONFIG = JObject
     [(js ''fhevm-voting'', JObject
        [(js ''name'', JString (js ''FHEVM Voting System'')),
         (js ''description'',
            JString (js ''Privacy-preserving voting using Fully Homomorphic Encryption'')),
         (js ''contractFile'', JString (js ''base-template/contracts/FHEMVoting.sol'')),
         (js ''testFile'', JString (js ''base-template/test/FHEMVoting.ts'')),
         (js ''category'', JString (js ''Advanced Examples''))])]"

definition EXAMPLES_MAP :: jsval where
  "EXAMPLES_MAP = JObject
     [(js ''fhe-counter'', JObject
        [(js ''contract'', JString (js ''contracts/basic/FHECounter.sol'')),
         (js ''test'', JString (js ''test/basic/FHECounter.ts'')),
         (js ''description'', JString (js
            ''Basic encrypted counter demonstrating FHE operations, permissions, and arithmetic''))]),
      (js ''encrypt-single-value'', JObject
        [(js ''contract'', JString (js ''contracts/basic/EncryptSingleValue.sol'')),
         (js ''test'', JString (js ''test/basic/EncryptSingleValue.ts'')),
         (js ''description'', JString (js
            ''Demonstrates encrypted input validation, proof verification, and common pitfalls''))]),
      (js ''fhevm-voting'', JObject
        [(js ''contract'', JString (js ''base-template/contracts/FHEMVoting.sol'')),
         (js ''test'', JString (js ''base-template/test/FHEMVoting.ts'')),
         (js ''description'', JString (js
            ''Advanced voting system with commit-reveal, weighted votes, and multi-phase governance''))])]"

subsection \<open>The file system\<close>

text \<open>
  A path names a regular file with its decoded content, a directory, or nothing.
  \<open>existsSync\<close> answers \<open>false\<close> for an argument that is not a path;
  \<open>path.join\<close> is modelled on names without separators or dot segments, which are
  the only ones the main program passes.
\<close>

datatype node = File jsstring | Dir

type_synonym filesystem = "jsstring \<rightharpoonup> node"

fun existsSync :: "filesystem \<Rightarrow> jsval \<Rightarrow> bool" where
  "existsSync fs (JString p) = (fs p \<noteq> None)"
| "existsSync fs v = False"

fun readFileSync :: "filesystem \<Rightarrow> jsval \<Rightarrow> js_error + jsstring" where
  "readFileSync fs (JString p) =
     (case fs p of
        None \<Rightarrow> Inl ENOENT
      | Some Dir \<Rightarrow> Inl EISDIR
      | Some (File content) \<Rightarrow> Inr content)"
| "readFileSync fs v = Inl TypeError"

definition mkdirSync :: "filesystem \<Rightarrow> jsstring \<Rightarrow> filesystem" where
  "mkdirSync fs p = fs(p \<mapsto> Dir)"

definition dirname :: "jsstring \<Rightarrow> jsstring" where
  "dirname p = (if 47 \<in> set p then rev (tl (dropWhile (\<lambda>c. c \<noteq> 47) (rev p))) else js ''.'')"

definition writeFileSync :: "filesystem \<Rightarrow> jsstring \<Rightarrow> jsstring \<Rightarrow> js_error + filesystem" where
  "writeFileSync fs p content =
     (if dirname p \<noteq> js ''.'' \<and> fs (dirname p) = None then Inl ENOENT
      else if dirname p \<noteq> js ''.'' \<and> fs (dirname p) \<noteq> Some Dir then Inl ENOTDIR
      else if fs p = Some Dir then Inl EISDIR
      else Inr (fs(p \<mapsto> File content)))"

definition path_join :: "jsstring \<Rightarrow> jsstring \<Rightarrow> jsstring" where
  "path_join a b = a @ js ''/'' @ b"


subsection \<open>generateDocumentation\<close>

definition text_line :: "string \<Rightarrow> jsstring" where
  "text_line s = js s @ nl"

definition para :: "string \<Rightarrow> jsstring" where
  "para s = js s @ nl @ nl"

fun decimal :: "nat \<Rightarrow> jsstring" where
  "decimal n = (if n < 10 then [48 + of_nat n] else decimal (n div 10) @ [48 + of_nat (n mod 10)])"

declare decimal.simps [simp del]

definition doc_key_concepts :: jsstring where
  \<open>doc_key_concepts = concat
     [para ''## Overview'',
      para ''This example demonstrates secure voting using FHEVM encryption.'',
      para ''## Key Concepts'',
      text_line ''### 1. Fully Homomorphic Encryption (FHEVM)'',
      text_line ''- Encrypt data on-chain'',
      text_line ''- Perform computations on encrypted values'',
      para ''- Decrypt results only by authorized parties'',
      text_line ''### 2. Commit-Reveal Voting'',
      text_line ''- **Commit Phase**: Voters submit vote commitments (hashes)'',
      text_line ''- **Reveal Phase**: Voters reveal actual votes with verification'',
      para ''- Prevents vote selling and coercion'',
      text_line ''### 3. Weighted Voting'',
      text_line ''- Different voting power for different participants'',
      text_line ''- Governance token integration'',
      para ''- Batch weight assignment'']\<close>


definition functionNames :: "jsstring list" where
  "functionNames = [js ''createProposal'', js ''commitVote'', js ''revealVote'', js ''executeProposal'']"

definition key_functions :: "(jsstring \<rightharpoonup> jsstring) \<Rightarrow> jsstring" where
  "key_functions natSpecMap = concat (map (\<lambda>funcName.
       case natSpecMap funcName of
         Some d \<Rightarrow> js ''#### '' @ funcName @ nl @ d @ nl @ nl
       | None \<Rightarrow> []) functionNames)"

definition contract_text :: "(jsstring \<rightharpoonup> jsstring) \<Rightarrow> jsstring" where
  "contract_text natSpecMap = concat
     [para ''## Smart Contract'',
      para ''### Key Functions'',
      key_functions natSpecMap,
      para ''### Data Structures'',
      text_line ''The contract manages:'',
      text_line ''- **Proposals**: Voting items with voting windows'',
      text_line ''- **Vote Commitments**: Hash-based vote privacy'',
      para ''- **Voter Weights**: Weighted voting power system'']"

definition smart_contract_section :: "filesystem \<Rightarrow> jsval \<Rightarrow> js_error + jsstring" where
  "smart_contract_section fs contractFile =
     (if existsSync fs contractFile then
        (case readFileSync fs contractFile of
           Inl e \<Rightarrow> Inl e
         | Inr contractContent \<Rightarrow>
            (case extractNatSpec contractContent of
               Inl e \<Rightarrow> Inl e
             | Inr natSpecMap \<Rightarrow> Inr (contract_text natSpecMap)))
      else Inr [])"

definition check_mark :: jsstring where
  "check_mark = [9989]"

definition cross_mark :: jsstring where
  "cross_mark = [10060]"

definition test_group :: "jsstring \<Rightarrow> jsstring list \<Rightarrow> jsstring" where
  "test_group heading tests =
     (if length tests > 0
      then heading @ concat (map (\<lambda>test. js ''- '' @ test @ nl) (take 5 tests)) @ nl
      else [])"

definition testing_text :: "jsstring list \<Rightarrow> jsstring" where
  "testing_text testPatterns =
     (let successTests = filter (\<lambda>p. str_includes p check_mark) testPatterns;
          failureTests = filter (\<lambda>p. str_includes p cross_mark) testPatterns
      in concat
         [para ''## Testing'',
          js ''The test suite includes '', decimal (length testPatterns),
          para '' comprehensive tests covering:'',
          test_group (js ''### Success Cases ('' @ check_mark @ text_line '')'') successTests,
          test_group (js ''### Error Handling ('' @ cross_mark @ text_line '')'') failureTests,
          para ''### Running Tests'',
          text_line ''```bash'',
          text_line ''npm test'',
          para ''```'',
          para ''With coverage report:'',
          text_line ''```bash'',
          text_line ''npm run coverage'',
          para ''```''])"

definition testing_section :: "filesystem \<Rightarrow> jsval \<Rightarrow> js_error + jsstring" where
  "testing_section fs testFile =
     (if existsSync fs testFile then
        (case readFileSync fs testFile of
           Inl e \<Rightarrow> Inl e
         | Inr testContent \<Rightarrow> Inr (testing_text (extractTestPatterns testContent)))
      else Inr [])"

text \<open>
  The module is compiled before any of it runs. Every string literal of
  \<open>generateDocumentation\<close> but one is well formed and appears in this theory as its
  value. The statement on line 271 is kept as its source text: its right-hand side opens
  with a double quote, and a double-quoted literal ends at the next double quote of its
  line or not at all. \<open>scan_double_quoted\<close> reads the text after the opening quote,
  with the escape \<open>\n\<close>, and \<open>load_module\<close> is what compiling the module yields:
  the value of that literal, or the error.
\<close>

definition line_271 :: string where
  \<open>line_271 = ''  doc += "- FHE.eq for equality comparisons''
     @ [CHR 0x5C] @ ''n'' @ [CHR 0x5C] @ ''n`;''\<close>

definition unescape :: "char \<Rightarrow> code_unit" where
  "unescape d = (if d = CHR ''n'' then 10 else code_unit_of d)"

fun scan_double_quoted :: "string \<Rightarrow> js_error + jsstring" where
  "scan_double_quoted [] = Inl SyntaxError"
| "scan_double_quoted (c # cs) =
     (if c = CHR 0x22 then Inr []
      else if c = CHR 0x5C then
        (case cs of
           [] \<Rightarrow> Inl SyntaxError
         | d # ds \<Rightarrow>
            (case scan_double_quoted ds of
               Inl e \<Rightarrow> Inl e
             | Inr v \<Rightarrow> Inr (unescape d # v)))
      else
        (case scan_double_quoted cs of
           Inl e \<Rightarrow> Inl e
         | Inr v \<Rightarrow> Inr (code_unit_of c # v)))"

definition load_module :: "js_error + jsstring" where
  "load_module =
     (case drop (length ''  doc += '') line_271 of
        [] \<Rightarrow> Inl SyntaxError
      | q # cs \<Rightarrow> if q = CHR 0x22 then scan_double_quoted cs else Inl SyntaxError)"

text \<open>
  The closing part of the document, given the value of the literal of line 271.
\<close>

definition doc_closing :: "jsstring \<Rightarrow> jsstring" where
  \<open>doc_closing line271 = concat
     [para ''## FHEVM Patterns Demonstrated'',
      text_line ''### 1. Encrypted Value Operations'',
      text_line ''```solidity'',
      text_line ''// Create encrypted value'',
      text_line ''euint32 encryptedVotes = FHE.asEuint32(0);'',
      nl,
      text_line ''// Add encrypted values'',
      text_line ''encryptedVotes = FHE.add(encryptedVotes, encryptedWeight);'',
      nl,
      text_line ''// Grant permissions'',
      text_line ''FHE.allowThis(encryptedVotes);'',
      text_line ''FHE.allow(encryptedVotes, msg.sender);'',
      para ''```'',
      text_line ''### 2. Access Control with FHE'',
      text_line ''- **FHE.allowThis()**: Contract can access encrypted value'',
      text_line ''- **FHE.allow()**: User can decrypt their own values'',
      para ''- Prevents unauthorized access to encrypted data'',
      text_line ''### 3. Encrypted Arithmetic'',
      text_line ''- FHE.add for vote accumulation'',
      text_line ''- FHE.sub for subtraction operations'',
      line271,
      para ''## Security Considerations'',
      text_line ''### Vote Privacy'',
      text_line ''- Votes are encrypted during commit phase'',
      text_line ''- Only participants can decrypt their own votes'',
      para ''- Double-spending (double voting) prevented'',
      text_line ''### Cryptographic Security'',
      text_line ''- Keccak-256 hashing for vote commitments'',
      text_line ''- Nonce prevents vote prediction'',
      para ''- Hash verification prevents tampering'',
      text_line ''### Smart Contract Security'',
      text_line ''- Access control for administrative functions'',
      text_line ''- State validation throughout voting phases'',
      para ''- Emergency proposal pause functionality'',
      para ''## Best Practices'',
      text_line ''### For Developers'',
      text_line ''1. Always use both FHE.allowThis() and FHE.allow()'',
      text_line ''2. Verify vote commitments before tallying'',
      text_line ''3. Use cryptographically secure random nonces'',
      para ''4. Test encrypted operations thoroughly'',
      text_line ''### For Users'',
      text_line ''1. Save your nonce immediately after committing'',
      text_line ''2. Don't reuse nonces across different votes'',
      text_line ''3. Verify contract address before voting'',
      para ''4. Keep private keys secure'',
      para ''## Quick Start'',
      text_line ''```bash'',
      text_line ''# Install dependencies'',
      text_line ''npm install'',
      nl,
      text_line ''# Compile contracts'',
      text_line ''npm run compile'',
      nl,
      text_line ''# Run tests'',
      text_line ''npm test'',
      nl,
      text_line ''# Deploy locally'',
      text_line ''npx hardhat run scripts/deploy.ts --network localhost'',
      para ''```'',
      para ''## Resources'',
      text_line ''- [FHEVM Documentation](https://docs.zama.ai/fhevm)'',
      text_line ''- [FHEVM GitHub Repository](https://github.com/zama-ai/fhevm)'',
      text_line ''- [Zama Community](https://www.zama.ai/community)'',
      para ''- [Discord Server](https://discord.com/invite/zama)'',
      para ''## License'',
      para ''BSD-3-Clause-Clear License'',
      para ''---'',
      para ''**Built for the Zama FHEVM Bounty Program**'',
      text_line ''*Advancing privacy-preserving blockchain governance with Fully Homomorphic Encryption*'']\<close>


definition generateDocumentation :: "filesystem \<Rightarrow> jsstring \<Rightarrow> jsval \<Rightarrow> js_error + jsstring" where
  "generateDocumentation fs exampleName config =
     (case load_module of
        Inl e \<Rightarrow> Inl e
      | Inr line271 \<Rightarrow>
     (case get_prop config (js ''name'') of
        Inl e \<Rightarrow> Inl e
      | Inr nm \<Rightarrow>
     (case get_prop config (js ''description'') of
        Inl e \<Rightarrow> Inl e
      | Inr descr \<Rightarrow>
     (case get_prop config (js ''contractFile'') of
        Inl e \<Rightarrow> Inl e
      | Inr contractFile \<Rightarrow>
     (case smart_contract_section fs contractFile of
        Inl e \<Rightarrow> Inl e
      | Inr contractPart \<Rightarrow>
     (case get_prop config (js ''testFile'') of
        Inl e \<Rightarrow> Inl e
      | Inr testFile \<Rightarrow>
     (case testing_section fs testFile of
        Inl e \<Rightarrow> Inl e
      | Inr testPart \<Rightarrow>
          Inr (js ''# '' @ to_str nm @ nl @ nl @ to_str descr @ nl @ nl
               @ doc_key_concepts @ contractPart @ testPart @ doc_closing line271))))))))"

subsection \<open>generateSummary and the main program\<close>

fun summary_entries :: "jsstring list \<Rightarrow> js_error + jsstring" where
  "summary_entries [] = Inr []"
| "summary_entries (example # examples) =
     (case get_prop DOCS_CONFIG example of
        Inl e \<Rightarrow> Inl e
      | Inr config \<Rightarrow>
         (case (if truthy config
                then (case get_prop config (js ''name'') of
                        Inl e \<Rightarrow> Inl e
                      | Inr nm \<Rightarrow> Inr (js ''- ['' @ to_str nm @ js ''](''
                                        @ example @ js ''.md)'' @ nl))
                else Inr []) of
            Inl e \<Rightarrow> Inl e
          | Inr entry \<Rightarrow>
             (case summary_entries examples of
                Inl e \<Rightarrow> Inl e
              | Inr entries \<Rightarrow> Inr (entry @ entries))))"

definition generateSummary :: "jsstring list \<Rightarrow> js_error + jsstring" where
  "generateSummary examples =
     (case summary_entries examples of
        Inl e \<Rightarrow> Inl e
      | Inr entries \<Rightarrow> Inr (concat
         [para ''# FHEVM Voting Examples Documentation'',
          para ''## Introduction'',
          para ''This documentation covers FHEVM voting examples demonstrating privacy-preserving governance.'',
          para ''## Table of Contents'',
          entries,
          nl, para ''## Quick Links'',
          text_line ''- [FHEVM Documentation](https://docs.zama.ai/fhevm)'',
          text_line ''- [GitHub Repository](https://github.com/zama-ai/fhevm-secure-voting)'',
          text_line ''- [Zama Community](https://www.zama.ai/community)'']))"

definition examplesDir :: jsstring where
  "examplesDir = js ''examples''"

fun generate_each :: "jsstring list \<Rightarrow> filesystem \<Rightarrow> filesystem \<times> js_error option" where
  "generate_each [] fs = (fs, None)"
| "generate_each (exampleName # rest) fs =
     (case get_prop DOCS_CONFIG exampleName of
        Inl e \<Rightarrow> (fs, Some e)
      | Inr config \<Rightarrow>
         (case generateDocumentation fs exampleName config of
            Inl e \<Rightarrow> (fs, Some e)
          | Inr documentation \<Rightarrow>
             (case writeFileSync fs (path_join examplesDir (exampleName @ js ''.md''))
                     documentation of
                Inl e \<Rightarrow> (fs, Some e)
              | Inr fs' \<Rightarrow> generate_each rest fs')))"

definition select_examples :: "jsstring list \<Rightarrow> jsstring list option" where
  "select_examples args =
     (if js ''--all'' \<in> set args then Some (object_keys DOCS_CONFIG)
      else if length args > 0 then
        (case get_prop DOCS_CONFIG (args ! 0) of
           Inl e \<Rightarrow> None
         | Inr v \<Rightarrow> if \<not> truthy v then None else Some [args ! 0])
      else None)"

text \<open>
  The main program. When the module does not compile, ts-node reports the error and the
  process ends with exit code 1 before the first statement.
\<close>

definition main :: "jsstring list \<Rightarrow> filesystem \<Rightarrow> nat \<times> filesystem" where
  "main args fs =
     (case load_module of
        Inl e \<Rightarrow> (1, fs)
      | Inr line271 \<Rightarrow>
     (if js ''--help'' \<in> set args \<or> js ''-h'' \<in> set args then (0, fs)
      else if js ''--list'' \<in> set args \<or> js ''-l'' \<in> set args then (0, fs)
      else
        let fs1 = (if \<not> existsSync fs (JString examplesDir) then mkdirSync fs examplesDir else fs)
        in case select_examples args of
             None \<Rightarrow> (1, fs1)
           | Some exampleNames \<Rightarrow>
              (case generate_each exampleNames fs1 of
                 (fs2, Some e) \<Rightarrow> (1, fs2)
               | (fs2, None) \<Rightarrow>
                   if js ''--all'' \<in> set args \<or> length exampleNames > 1 then
                     (case generateSummary exampleNames of
                        Inl e \<Rightarrow> (1, fs2)
                      | Inr summary \<Rightarrow>
                         (case writeFileSync fs2 (path_join examplesDir (js ''SUMMARY.md''))
                                 summary of
                            Inl e \<Rightarrow> (1, fs2)
                          | Inr fs3 \<Rightarrow> (0, fs3)))
                   else (0, fs2))))"


text \<open>
  What a configuration's field says about the file system: the content of the regular
  file it names, if there is one.
\<close>

definition file_at :: "filesystem \<Rightarrow> jsval \<Rightarrow> jsstring \<Rightarrow> jsstring option" where
  "file_at fs config field =
     (case get_prop config field of
        Inr (JString p) \<Rightarrow> (case fs p of Some (File content) \<Rightarrow> Some content | _ \<Rightarrow> None)
      | _ \<Rightarrow> None)"

definition file_or_absent :: "filesystem \<Rightarrow> jsval \<Rightarrow> jsstring \<Rightarrow> bool" where
  "file_or_absent fs config field =
     (case get_prop config field of
        Inr (JString p) \<Rightarrow> fs p \<noteq> Some Dir
      | _ \<Rightarrow> True)"

subsection \<open>Concrete file contents\<close>

text \<open>
  The text of a contract file with one documented function and of a test file with two
  titles, on which the extraction functions are evaluated below.
\<close>

definition demo_contract :: jsstring where
  "demo_contract = js ''  /// @notice Create'' @ nl @ js ''  /// a proposal'' @ nl
     @ js ''  function createProposal('' @ nl @ js ''}''"

definition demo_tests :: jsstring where
  \<open>demo_tests = js ''it("'' @ check_mark @ js '' ok", async () => {'' @ nl
     @ js ''it("'' @ cross_mark @ js '' bad", async () => {'' @ nl\<close>

section \<open>Properties of the voting contract\<close>

subsection \<open>Auxiliary facts\<close>

lemmas lib_defs = asEuint32_def fhe_add_def acl_allow_def

lemmas call_defs = transact_def setVoterWeight_def setMultipleVoterWeights_def
  createProposal_def commitVote_def revealVote_def executeProposal_def
  setVotingOpen_def pauseProposal_def lib_defs

lemmas demo_defs = demo_created_def demo_committed_def demo_owner_def demo_alice_def
  constructor_def transact_def setVoterWeight_def createProposal_def commitVote_def
  checked_add_def proposal_exists_def VOTING_DURATION_def MIN_VOTING_POWER_def one_day_def
  zero_Proposal_def zero_VoteCommitment_def asEuint32_def

lemma demo_hash: "demo_keccak (encodePacked True 7 2) = 32305409459104507816624093"
  by (simp add: demo_keccak_def encodePacked_def be_bytes_def upt_rec)

lemma demo_created_fields:
  "proposalCount demo_created = 1"
  "votingOpen demo_created"
  "voterWeight demo_created 2 = 4294967301"
  "votingEnd (proposals demo_created 1) = 606800"
  "active (proposals demo_created 1)"
  "\<not> executed (proposals demo_created 1)"
  "encryptedYesCount (proposals demo_created 1) = FHE_asEuint32 0"
  "voteHash (voteCommitments demo_created 1 2) = 0"
  by (simp_all add: demo_defs)

lemma demo_committed_fields:
  "proposalCount demo_committed = 1"
  "votingOpen demo_committed"
  "voterWeight demo_committed 2 = 4294967301"
  "votingEnd (proposals demo_committed 1) = 606800"
  "active (proposals demo_committed 1)"
  "\<not> executed (proposals demo_committed 1)"
  "encryptedYesCount (proposals demo_committed 1) = FHE_asEuint32 0"
  "voteHash (voteCommitments demo_committed 1 2) = 32305409459104507816624093"
  "\<not> revealed (voteCommitments demo_committed 1 2)"
  by (simp_all add: demo_defs)

lemma demo_exists: "proposal_exists demo_committed 1"
  by (simp add: proposal_exists_def demo_committed_fields)

lemma demo_granted_fields:
  "proposalCount demo_granted = 1"
  "voterWeight demo_granted 2 = 4294967301"
  "votingEnd (proposals demo_granted 1) = 606800"
  "encryptedYesCount (proposals demo_granted 1) = FHE_asEuint32 0"
  "voteHash (voteCommitments demo_granted 1 2) = 32305409459104507816624093"
  "\<not> revealed (voteCommitments demo_granted 1 2)"
  "acl_allowed demo_granted = [(FHE_asEuint32 0, 9)]"
  by (simp_all add: demo_granted_def demo_committed_fields)

lemma demo_committed_acl: "acl_allowed demo_committed = []"
  by (simp add: demo_defs)

lemma demo_reveal_granted:
  "\<not> isl (revealVote demo_keccak (demo_alice 700000) 1 True 7 demo_granted)"
  by (simp add: revealVote_def Let_def demo_granted_fields demo_hash proposal_exists_def
        demo_alice_def lib_defs isAllowed_def)

lemma checked_add_unat:
  "checked_add a b = Inr c \<Longrightarrow> unat c = unat a + unat b"
  by (auto simp: checked_add_def unat_word_ariths split: if_splits)

lemma FHE_add_neq: "FHE_add a b \<noteq> a"
  by (induction a arbitrary: b) auto

lemma transact_executed:
  "executed (proposals s p) \<Longrightarrow> executed (proposals (transact K e c s) p)"
  by (cases c)
     (auto simp: call_defs Let_def split: sum.splits if_splits prod.splits)

lemma run_executed:
  "executed (proposals s p) \<Longrightarrow> executed (proposals (run K txs s) p)"
  by (induction txs arbitrary: s) (auto simp: transact_executed)

lemma executeProposal_Inr_iff:
  "(\<exists>r. executeProposal e p s = Inr r) \<longleftrightarrow>
     proposal_exists s p
     \<and> unat (votingEnd (proposals s p)) + 86400 \<le> unat (block_timestamp e)
     \<and> \<not> executed (proposals s p) \<and> active (proposals s p)"
proof -
  have lt: "unat (block_timestamp e) < 2 ^ 256"
    using unsigned_less [of "block_timestamp e"] by simp
  show ?thesis
    using lt
    by (auto simp: executeProposal_def checked_add_def one_day_def word_le_nat_alt
          unat_word_ariths split: if_splits)
qed

lemma executeProposal_sets_executed:
  "executeProposal e p s = Inr (s', fx) \<Longrightarrow> executed (proposals s' p)"
  by (auto simp: executeProposal_def split: sum.splits if_splits)

lemma transact_voteHash:
  "voteHash (voteCommitments s p a) \<noteq> 0 \<Longrightarrow>
   voteHash (voteCommitments (transact K e c s) p a) = voteHash (voteCommitments s p a)"
  by (cases c) (auto simp: call_defs Let_def split: sum.splits if_splits prod.splits)

lemma run_voteHash:
  "voteHash (voteCommitments s p a) \<noteq> 0 \<Longrightarrow>
   voteHash (voteCommitments (run K txs s) p a) = voteHash (voteCommitments s p a)"
  by (induction txs arbitrary: s) (auto simp: transact_voteHash)

lemma commitVote_stores:
  "commitVote e p h s = Inr (s1, fx) \<Longrightarrow> voteHash (voteCommitments s1 p (msg_sender e)) = h"
  by (auto simp: commitVote_def split: if_splits)

lemma commitVote_needs_empty_slot:
  "voteHash (voteCommitments s p (msg_sender e)) \<noteq> 0 \<Longrightarrow> \<exists>err. commitVote e p h s = Inl err"
  by (auto simp: commitVote_def)

lemma le_succ_cases:
  fixes p c :: uint256
  assumes "unat c + 1 < 2 ^ 256" "p \<le> c + 1"
  shows "p \<le> c \<or> p = c + 1"
proof -
  have "unat (c + 1) = unat c + 1"
    using assms(1) by (simp add: unat_word_ariths)
  with assms(2) have "unat p \<le> unat c + 1" by (simp add: word_le_nat_alt)
  then have "unat p \<le> unat c \<or> unat p = unat (c + 1)"
    using \<open>unat (c + 1) = unat c + 1\<close> by linarith
  then show ?thesis by (auto simp: word_le_nat_alt word_unat_eq_iff)
qed

lemma succ_not_le:
  fixes c :: uint256
  assumes "unat c + 1 < 2 ^ 256"
  shows "\<not> c + 1 \<le> c"
proof -
  have "unat (c + 1) = unat c + 1"
    using assms(1) by (simp add: unat_word_ariths)
  then show ?thesis by (simp add: word_le_nat_alt)
qed

lemma createProposal_votingEnd_wf:
  assumes "votingEnd_wf s" "createProposal e t d s = Inr (s', fx)"
  shows "votingEnd_wf s'"
proof -
  from assms(2) obtain vEnd where
    c: "unat (proposalCount s) + 1 < 2 ^ 256" and
    v: "checked_add (block_timestamp e) VOTING_DURATION = Inr vEnd" and
    s': "proposalCount s' = proposalCount s + 1"
        "proposals s' = (proposals s)(proposalCount s + 1 :=
           (proposals s (proposalCount s + 1))
             \<lparr>id_f := proposalCount s + 1, title := t, description := d,
               creator := msg_sender e, createdAt := block_timestamp e,
               votingEnd := vEnd, active := True,
               encryptedYesCount := FHE_asEuint32 0,
               encryptedNoCount := FHE_asEuint32 0\<rparr>)"
    by (auto simp: createProposal_def asEuint32_def checked_add_def Let_def
          split: if_splits sum.splits)
  have ve: "unat vEnd = unat (block_timestamp e) + 604800"
    using checked_add_unat [OF v] by (simp add: VOTING_DURATION_def)
  then have le: "block_timestamp e \<le> vEnd" by (simp add: word_le_nat_alt)
  show ?thesis
    unfolding votingEnd_wf_def
  proof (intro allI impI)
    fix p assume "proposal_exists s' p"
    then have "p \<le> proposalCount s + 1" "p > 0"
      by (simp_all add: proposal_exists_def s')
    from le_succ_cases [OF c this(1)] show
      "createdAt (proposals s' p) \<le> votingEnd (proposals s' p) \<and>
       unat (votingEnd (proposals s' p)) = unat (createdAt (proposals s' p)) + 604800"
    proof
      assume "p \<le> proposalCount s"
      then have "p \<noteq> proposalCount s + 1" using succ_not_le [OF c] by auto
      moreover have "proposal_exists s p"
        using \<open>p \<le> proposalCount s\<close> \<open>p > 0\<close> by (simp add: proposal_exists_def)
      ultimately show ?thesis
        using assms(1) by (simp add: s' votingEnd_wf_def)
    next
      assume "p = proposalCount s + 1"
      then show ?thesis using ve le by (simp add: s')
    qed
  qed
qed

lemma transact_votingEnd_wf:
  assumes "votingEnd_wf s"
  shows "votingEnd_wf (transact K e c s)"
proof (cases c)
  case (CreateProposal t d)
  then show ?thesis
    using assms createProposal_votingEnd_wf [of s e t d]
    by (auto simp: transact_def split: sum.splits)
qed (use assms in \<open>auto simp: votingEnd_wf_def proposal_exists_def transact_def
      setVoterWeight_def setMultipleVoterWeights_def commitVote_def revealVote_def
      executeProposal_def setVotingOpen_def pauseProposal_def lib_defs Let_def
      split: sum.splits if_splits prod.splits\<close>)

lemma run_votingEnd_wf:
  "votingEnd_wf s \<Longrightarrow> votingEnd_wf (run K txs s)"
  by (induction txs arbitrary: s) (auto simp: transact_votingEnd_wf)

lemma constructor_votingEnd_wf: "votingEnd_wf (constructor e)"
  by (simp add: votingEnd_wf_def constructor_def proposal_exists_def)

subsection \<open>Reveal checks the commitment\<close>

text \<open>
  Claim C1. A call \<open>revealVote(proposalId, support, nonce)\<close> returns only if the hash of
  \<open>abi.encodePacked(support, nonce, msg.sender)\<close> equals the hash stored for the caller on
  that proposal; when the two differ the call reverts and the storage stays as it was.
\<close>

theorem revealVote_requires_matching_hash:
  "(\<forall>r. revealVote K e proposalId support nonce s = Inr r \<longrightarrow>
      K (encodePacked support nonce (msg_sender e))
        = voteHash (voteCommitments s proposalId (msg_sender e)))
   \<and> (K (encodePacked support nonce (msg_sender e))
        \<noteq> voteHash (voteCommitments s proposalId (msg_sender e)) \<longrightarrow>
      (\<exists>err. revealVote K e proposalId support nonce s = Inl err)
      \<and> transact K e (RevealVote proposalId support nonce) s = s)"
  by (auto simp: revealVote_def transact_def Let_def lib_defs
        split: if_splits sum.splits prod.splits)

theorem revealVote_requires_matching_hash_witness:
  "\<not> isl (revealVote demo_keccak (demo_alice 700000) 1 True 7 demo_granted)
   \<and> demo_keccak (encodePacked True 7 (msg_sender (demo_alice 700000)))
        = voteHash (voteCommitments demo_granted 1 (msg_sender (demo_alice 700000)))
   \<and> demo_keccak (encodePacked True 8 (msg_sender (demo_alice 700000)))
        \<noteq> voteHash (voteCommitments demo_committed 1 (msg_sender (demo_alice 700000)))
   \<and> isl (revealVote demo_keccak (demo_alice 700000) 1 True 8 demo_committed)
   \<and> transact demo_keccak (demo_alice 700000) (RevealVote 1 True 8) demo_committed
        = demo_committed"
proof -
  note ok = demo_reveal_granted
  have ne: "demo_keccak (encodePacked True 8 (msg_sender (demo_alice 700000)))
        \<noteq> voteHash (voteCommitments demo_committed 1 (msg_sender (demo_alice 700000)))"
    by (simp add: demo_committed_fields demo_alice_def demo_keccak_def encodePacked_def
          be_bytes_def upt_rec)
  from ok obtain r
    where r: "revealVote demo_keccak (demo_alice 700000) 1 True 7 demo_granted = Inr r"
    by (cases "revealVote demo_keccak (demo_alice 700000) 1 True 7 demo_granted") auto
  note th = revealVote_requires_matching_hash
    [of demo_keccak "demo_alice 700000" 1 True 7 demo_granted]
  note th2 = revealVote_requires_matching_hash
    [of demo_keccak "demo_alice 700000" 1 True 8 demo_committed]
  from th r have eq: "demo_keccak (encodePacked True 7 (msg_sender (demo_alice 700000)))
        = voteHash (voteCommitments demo_granted 1 (msg_sender (demo_alice 700000)))"
    by blast
  from th2 ne
  have "(\<exists>err. revealVote demo_keccak (demo_alice 700000) 1 True 8 demo_committed = Inl err)
      \<and> transact demo_keccak (demo_alice 700000) (RevealVote 1 True 8) demo_committed
          = demo_committed"
    by blast
  with ok eq ne show ?thesis by auto
qed

subsection \<open>One commitment per voter and proposal\<close>

text \<open>
  Claim C2, as the spec states it, fails for one value of the committed hash: a commitment
  of \<open>bytes32(0)\<close> is accepted and leaves the slot looking empty, so the same address can
  commit again on the same proposal and overwrite it.
\<close>

theorem commitVote_twice_counterexample:
  "\<not> isl (commitVote (demo_alice 3000) 1 0 demo_created)
   \<and> \<not> isl (commitVote (demo_alice 3001) 1 5
          (transact demo_keccak (demo_alice 3000) (CommitVote 1 0) demo_created))
   \<and> voteHash (voteCommitments
          (transact demo_keccak (demo_alice 3001) (CommitVote 1 5)
            (transact demo_keccak (demo_alice 3000) (CommitVote 1 0) demo_created))
          1 (msg_sender (demo_alice 3001))) = 5"
  by (simp add: demo_defs)

text \<open>
  Claim C2, amended. After a successful \<open>commitVote\<close> with a hash other than zero, the
  stored hash stays what it is through every later sequence of transactions, and every
  later \<open>commitVote\<close> of the same address on the same proposal reverts.
\<close>

theorem commitVote_once:
  assumes "commitVote e proposalId h s = Inr (s1, fx)" and "h \<noteq> 0"
  shows "voteHash (voteCommitments (run K txs s1) proposalId (msg_sender e)) = h
       \<and> hasUserVoted (run K txs s1) proposalId (msg_sender e)
       \<and> (\<forall>e' h'. msg_sender e' = msg_sender e \<longrightarrow>
            (\<exists>err. commitVote e' proposalId h' (run K txs s1) = Inl err))"
proof -
  have h1: "voteHash (voteCommitments s1 proposalId (msg_sender e)) = h"
    using assms(1) by (rule commitVote_stores)
  with assms(2) have h2: "voteHash (voteCommitments (run K txs s1) proposalId (msg_sender e)) = h"
    by (simp add: run_voteHash)
  with assms(2) show ?thesis
    by (auto simp: hasUserVoted_def intro: commitVote_needs_empty_slot)
qed

theorem commitVote_once_witness:
  "commitVote (demo_alice 3000) 1 32305409459104507816624093 demo_created
     = Inr (demo_committed, [Emit (VoteCommitted 1 2 32305409459104507816624093)])
   \<and> (32305409459104507816624093 :: bytes32) \<noteq> 0
   \<and> voteHash (voteCommitments
        (run demo_keccak [(demo_owner 4000, PauseProposal 1)] demo_committed) 1 2)
       = 32305409459104507816624093
   \<and> isl (commitVote (demo_alice 5000) 1 77
        (run demo_keccak [(demo_owner 4000, PauseProposal 1)] demo_committed))"
proof -
  have c: "commitVote (demo_alice 3000) 1 32305409459104507816624093 demo_created
     = Inr (demo_committed, [Emit (VoteCommitted 1 2 32305409459104507816624093)])"
    using demo_created_fields
    by (simp add: demo_committed_def transact_def commitVote_def proposal_exists_def demo_alice_def)
  have n: "(32305409459104507816624093 :: bytes32) \<noteq> 0" by simp
  have s: "msg_sender (demo_alice 5000) = msg_sender (demo_alice 3000)"
    by (simp add: demo_alice_def)
  have a2: "msg_sender (demo_alice 3000) = 2" by (simp add: demo_alice_def)
  from commitVote_once [OF c n, of demo_keccak "[(demo_owner 4000, PauseProposal 1)]"] s a2
  have "voteHash (voteCommitments
        (run demo_keccak [(demo_owner 4000, PauseProposal 1)] demo_committed) 1 2)
       = 32305409459104507816624093"
    and "\<exists>err. commitVote (demo_alice 5000) 1 77
        (run demo_keccak [(demo_owner 4000, PauseProposal 1)] demo_committed) = Inl err"
    by auto
  with c n show ?thesis by auto
qed

subsection \<open>Execution waits for the end of the reveal period\<close>

text \<open>
  Claim C3. For an existing proposal \<open>executeProposal\<close> reverts while
  \<open>block.timestamp < votingEnd + 1 day\<close>; from then on it returns for a proposal that is
  active and not yet executed; and once it has returned, every later \<open>executeProposal\<close> on
  that proposal reverts, whatever transactions came in between.
\<close>

theorem executeProposal_time_gate:
  assumes "proposal_exists s proposalId"
  shows "(unat (block_timestamp e) < unat (votingEnd (proposals s proposalId)) + 86400 \<longrightarrow>
            (\<exists>err. executeProposal e proposalId s = Inl err))
       \<and> (unat (votingEnd (proposals s proposalId)) + 86400 \<le> unat (block_timestamp e)
            \<and> \<not> executed (proposals s proposalId) \<and> active (proposals s proposalId) \<longrightarrow>
            (\<exists>s' fx. executeProposal e proposalId s = Inr (s', fx)))
       \<and> (\<forall>s' fx K txs e'. executeProposal e proposalId s = Inr (s', fx) \<longrightarrow>
            (\<exists>err. executeProposal e' proposalId (run K txs s') = Inl err))"
proof (intro conjI impI allI)
  assume "unat (block_timestamp e) < unat (votingEnd (proposals s proposalId)) + 86400"
  then have "\<not> (\<exists>r. executeProposal e proposalId s = Inr r)"
    unfolding executeProposal_Inr_iff by simp
  then show "\<exists>err. executeProposal e proposalId s = Inl err"
    by (cases "executeProposal e proposalId s") auto
next
  assume "unat (votingEnd (proposals s proposalId)) + 86400 \<le> unat (block_timestamp e)
            \<and> \<not> executed (proposals s proposalId) \<and> active (proposals s proposalId)"
  with assms have "\<exists>r. executeProposal e proposalId s = Inr r"
    unfolding executeProposal_Inr_iff by simp
  then show "\<exists>s' fx. executeProposal e proposalId s = Inr (s', fx)" by auto
next
  fix s' fx K txs e'
  assume "executeProposal e proposalId s = Inr (s', fx)"
  then have "executed (proposals (run K txs s') proposalId)"
    by (intro run_executed executeProposal_sets_executed)
  then have "\<not> (\<exists>r. executeProposal e' proposalId (run K txs s') = Inr r)"
    unfolding executeProposal_Inr_iff by simp
  then show "\<exists>err. executeProposal e' proposalId (run K txs s') = Inl err"
    by (cases "executeProposal e' proposalId (run K txs s')") auto
qed

theorem executeProposal_time_gate_witness:
  "proposal_exists demo_committed 1
   \<and> isl (executeProposal (demo_alice 693199) 1 demo_committed)
   \<and> \<not> isl (executeProposal (demo_alice 693200) 1 demo_committed)
   \<and> isl (executeProposal (demo_alice 800000) 1
        (run demo_keccak [(demo_owner 700000, SetVotingOpen False)]
          (fst (projr (executeProposal (demo_alice 693200) 1 demo_committed)))))"
proof -
  note th1 = executeProposal_time_gate [OF demo_exists, of "demo_alice 693199"]
  note th2 = executeProposal_time_gate [OF demo_exists, of "demo_alice 693200"]
  have "\<exists>err. executeProposal (demo_alice 693199) 1 demo_committed = Inl err"
    using th1 by (simp add: demo_alice_def demo_committed_fields)
  then have a: "isl (executeProposal (demo_alice 693199) 1 demo_committed)" by auto
  have "\<exists>s' fx. executeProposal (demo_alice 693200) 1 demo_committed = Inr (s', fx)"
    using th2 by (simp add: demo_alice_def demo_committed_fields)
  then obtain s' fx where r: "executeProposal (demo_alice 693200) 1 demo_committed = Inr (s', fx)"
    by auto
  with th2 have "\<exists>err. executeProposal (demo_alice 800000) 1
        (run demo_keccak [(demo_owner 700000, SetVotingOpen False)] s') = Inl err"
    by blast
  with r a demo_exists show ?thesis by auto
qed

subsection \<open>When a reveal reverts\<close>

text \<open>
  Claim C4 says that \<open>revealVote\<close> reverts if and only if the proposal id is 0 or above
  \<open>proposalCount\<close>, or \<open>block.timestamp < votingEnd\<close>, or the caller has no commitment,
  or has revealed already, or the recomputed hash differs from the commitment. The
  contract does not do so. \<open>createProposal\<close> stores the handles of its two counters
  without \<open>FHE.allowThis\<close>, so in the reveal, a later transaction, \<open>FHE.add\<close> refuses the
  counter: in the run below none of the five conditions holds and the call reverts with
  \<open>ACLNotAllowed\<close>.
\<close>

theorem revealVote_refused_by_library:
  "demo_committed = run demo_keccak
       [(demo_owner 1000, SetVoterWeight 2 4294967301),
        (demo_alice 2000, CreateProposal ''t'' ''d''),
        (demo_alice 3000, CommitVote 1 (generateVoteHash demo_keccak (demo_alice 3000) True 7))]
       (constructor (demo_owner 1000))
   \<and> (1 :: uint256) \<noteq> 0
   \<and> (1 :: uint256) \<le> proposalCount demo_committed
   \<and> votingEnd (proposals demo_committed 1) \<le> block_timestamp (demo_alice 700000)
   \<and> voteHash (voteCommitments demo_committed 1 (msg_sender (demo_alice 700000))) \<noteq> 0
   \<and> \<not> revealed (voteCommitments demo_committed 1 (msg_sender (demo_alice 700000)))
   \<and> demo_keccak (encodePacked True 7 (msg_sender (demo_alice 700000)))
        = voteHash (voteCommitments demo_committed 1 (msg_sender (demo_alice 700000)))
   \<and> revealVote demo_keccak (demo_alice 700000) 1 True 7 demo_committed
        = Inl (ACLNotAllowed (FHE_asEuint32 0) 9)"
proof -
  have h: "generateVoteHash demo_keccak (demo_alice 3000) True 7 = 32305409459104507816624093"
    by (simp add: generateVoteHash_def demo_alice_def demo_hash)
  have r: "demo_committed = run demo_keccak
       [(demo_owner 1000, SetVoterWeight 2 4294967301),
        (demo_alice 2000, CreateProposal ''t'' ''d''),
        (demo_alice 3000, CommitVote 1 (generateVoteHash demo_keccak (demo_alice 3000) True 7))]
       (constructor (demo_owner 1000))"
    unfolding h by (simp add: demo_committed_def demo_created_def)
  have s: "msg_sender (demo_alice 700000) = 2" "block_timestamp (demo_alice 700000) = 700000"
    "address_this (demo_alice 700000) = 9"
    by (simp_all add: demo_alice_def)
  have rv: "revealVote demo_keccak (demo_alice 700000) 1 True 7 demo_committed
        = Inl (ACLNotAllowed (FHE_asEuint32 0) 9)"
    by (simp add: revealVote_def Let_def s demo_committed_fields demo_committed_acl demo_hash
          proposal_exists_def lib_defs isAllowed_def)
  show ?thesis
    using r rv by (simp add: s demo_committed_fields demo_hash)
qed

subsection \<open>The phases in time\<close>

text \<open>
  Claim C5. A commit returns only with \<open>block.timestamp < votingEnd\<close> and a reveal only
  with \<open>block.timestamp \<ge> votingEnd\<close>, so at one timestamp no proposal accepts both; an
  execution returns only from \<open>votingEnd + 1 day\<close> on; \<open>createProposal\<close> sets
  \<open>votingEnd = createdAt + 7 days\<close>, and this holds of every existing proposal in every
  state the contract reaches from its constructor.
\<close>

theorem phases_disjoint_and_ordered:
  "(\<forall>r. commitVote e1 proposalId h s = Inr r \<longrightarrow>
       block_timestamp e1 < votingEnd (proposals s proposalId))
   \<and> (\<forall>r. revealVote K e2 proposalId support nonce s = Inr r \<longrightarrow>
       votingEnd (proposals s proposalId) \<le> block_timestamp e2)
   \<and> (block_timestamp e1 = block_timestamp e2 \<longrightarrow>
       isl (commitVote e1 proposalId h s) \<or> isl (revealVote K e2 proposalId support nonce s))
   \<and> (\<forall>r. executeProposal e3 proposalId s = Inr r \<longrightarrow>
       unat (votingEnd (proposals s proposalId)) + 86400 \<le> unat (block_timestamp e3))
   \<and> (\<forall>s' fx. createProposal e4 t d s = Inr (s', fx) \<longrightarrow>
       createdAt (proposals s' (proposalCount s')) = block_timestamp e4
       \<and> unat (votingEnd (proposals s' (proposalCount s')))
           = unat (createdAt (proposals s' (proposalCount s'))) + 604800)
   \<and> (\<forall>p. proposal_exists (run K txs (constructor e0)) p \<longrightarrow>
       unat (votingEnd (proposals (run K txs (constructor e0)) p))
         = unat (createdAt (proposals (run K txs (constructor e0)) p)) + 604800)"
proof (intro conjI allI impI)
  fix r assume "commitVote e1 proposalId h s = Inr r"
  then show "block_timestamp e1 < votingEnd (proposals s proposalId)"
    by (auto simp: commitVote_def split: if_splits)
next
  fix r assume "revealVote K e2 proposalId support nonce s = Inr r"
  then show "votingEnd (proposals s proposalId) \<le> block_timestamp e2"
    by (auto simp: revealVote_def split: if_splits)
next
  assume "block_timestamp e1 = block_timestamp e2"
  then show "isl (commitVote e1 proposalId h s) \<or> isl (revealVote K e2 proposalId support nonce s)"
    by (auto simp: commitVote_def revealVote_def)
next
  fix r assume "executeProposal e3 proposalId s = Inr r"
  then show "unat (votingEnd (proposals s proposalId)) + 86400 \<le> unat (block_timestamp e3)"
    using executeProposal_Inr_iff [of e3 proposalId s] by blast
next
  fix s' fx assume c: "createProposal e4 t d s = Inr (s', fx)"
  then show "createdAt (proposals s' (proposalCount s')) = block_timestamp e4"
    by (auto simp: createProposal_def asEuint32_def Let_def split: if_splits sum.splits)
  from c obtain vEnd where
    v: "checked_add (block_timestamp e4) VOTING_DURATION = Inr vEnd" and
    p: "votingEnd (proposals s' (proposalCount s')) = vEnd"
       "createdAt (proposals s' (proposalCount s')) = block_timestamp e4"
    by (auto simp: createProposal_def asEuint32_def Let_def split: if_splits sum.splits)
  show "unat (votingEnd (proposals s' (proposalCount s')))
           = unat (createdAt (proposals s' (proposalCount s'))) + 604800"
    using checked_add_unat [OF v] by (simp add: p VOTING_DURATION_def)
next
  fix p assume "proposal_exists (run K txs (constructor e0)) p"
  moreover have "votingEnd_wf (run K txs (constructor e0))"
    by (intro run_votingEnd_wf constructor_votingEnd_wf)
  ultimately show "unat (votingEnd (proposals (run K txs (constructor e0)) p))
         = unat (createdAt (proposals (run K txs (constructor e0)) p)) + 604800"
    by (simp add: votingEnd_wf_def)
qed

theorem phases_disjoint_and_ordered_witness:
  "\<not> isl (commitVote (demo_alice 3000) 1 9 demo_created)
   \<and> block_timestamp (demo_alice 3000) < votingEnd (proposals demo_created 1)
   \<and> isl (revealVote demo_keccak (demo_alice 3000) 1 True 7 demo_created)
   \<and> \<not> isl (executeProposal (demo_alice 693200) 1 demo_created)
   \<and> unat (votingEnd (proposals demo_created 1)) + 86400 \<le> unat (block_timestamp (demo_alice 693200))
   \<and> proposal_exists demo_created 1
   \<and> unat (votingEnd (proposals demo_created 1)) = unat (createdAt (proposals demo_created 1)) + 604800"
proof -
  note th = phases_disjoint_and_ordered
    [of "demo_alice 3000" 1 9 demo_created demo_keccak "demo_alice 3000" True 7
        "demo_alice 693200" "demo_alice 2000" "''t''" "''d''"
        "[(demo_owner 1000, SetVoterWeight 2 4294967301),
          (demo_alice 2000, CreateProposal ''t'' ''d'')]" "demo_owner 1000"]
  have c: "\<not> isl (commitVote (demo_alice 3000) 1 9 demo_created)"
    by (simp add: commitVote_def proposal_exists_def demo_created_fields demo_alice_def)
  then obtain r where r: "commitVote (demo_alice 3000) 1 9 demo_created = Inr r"
    by (cases "commitVote (demo_alice 3000) 1 9 demo_created") auto
  with th have lt: "block_timestamp (demo_alice 3000) < votingEnd (proposals demo_created 1)"
    by blast
  from th c have rv: "isl (revealVote demo_keccak (demo_alice 3000) 1 True 7 demo_created)"
    by blast
  have x: "\<not> isl (executeProposal (demo_alice 693200) 1 demo_created)"
    by (simp add: executeProposal_def proposal_exists_def checked_add_def one_day_def
          demo_created_fields demo_alice_def)
  then obtain r3 where r3: "executeProposal (demo_alice 693200) 1 demo_created = Inr r3"
    by (cases "executeProposal (demo_alice 693200) 1 demo_created") auto
  with th have xt: "unat (votingEnd (proposals demo_created 1)) + 86400
      \<le> unat (block_timestamp (demo_alice 693200))"
    by blast
  have pe: "proposal_exists demo_created 1"
    by (simp add: proposal_exists_def demo_created_fields)
  with th have wf: "unat (votingEnd (proposals demo_created 1))
      = unat (createdAt (proposals demo_created 1)) + 604800"
    unfolding demo_created_def by blast
  from c lt rv x xt pe wf show ?thesis by simp
qed

subsection \<open>What an execution does\<close>

text \<open>
  Claim C9. A successful \<open>executeProposal\<close> changes the storage in the proposal's
  \<open>executed\<close> flag only, and emits \<open>ProposalExecuted\<close> with \<open>passed = true\<close>, whatever the
  encrypted counters and the vote commitments hold.
\<close>

theorem executeProposal_effect:
  assumes "executeProposal e proposalId s = Inr (s', fx)"
  shows "s' = s\<lparr>proposals := (proposals s)
                  (proposalId := (proposals s proposalId)\<lparr>executed := True\<rparr>)\<rparr>
       \<and> fx = [Emit (ProposalExecuted proposalId True (block_timestamp e))]
       \<and> (\<forall>yes no vc. \<exists>s''.
            executeProposal e proposalId
              (s\<lparr>voteCommitments := vc,
                 proposals := (proposals s)
                   (proposalId := (proposals s proposalId)
                      \<lparr>encryptedYesCount := yes, encryptedNoCount := no\<rparr>)\<rparr>)
            = Inr (s'', [Emit (ProposalExecuted proposalId True (block_timestamp e))]))"
  using assms
  by (auto simp: executeProposal_def proposal_exists_def split: sum.splits if_splits)

theorem executeProposal_effect_witness:
  "\<not> isl (executeProposal (demo_alice 693200) 1 demo_committed)
   \<and> snd (projr (executeProposal (demo_alice 693200) 1 demo_committed))
       = [Emit (ProposalExecuted 1 True 693200)]
   \<and> executed (proposals (fst (projr (executeProposal (demo_alice 693200) 1 demo_committed))) 1)
   \<and> \<not> isl (executeProposal (demo_alice 693200) 1
        (demo_committed\<lparr>voteCommitments := (\<lambda>_ _. zero_VoteCommitment),
           proposals := (proposals demo_committed)
             (1 := (proposals demo_committed 1)
                \<lparr>encryptedYesCount := FHE_asEuint32 1, encryptedNoCount := FHE_asEuint32 9\<rparr>)\<rparr>))"
proof -
  have ok: "\<not> isl (executeProposal (demo_alice 693200) 1 demo_committed)"
    by (simp add: executeProposal_def demo_exists checked_add_def one_day_def
          demo_committed_fields demo_alice_def)
  then obtain s' fx where r: "executeProposal (demo_alice 693200) 1 demo_committed = Inr (s', fx)"
    by (cases "executeProposal (demo_alice 693200) 1 demo_committed") auto
  note th = executeProposal_effect [OF r]
  from th have fx: "fx = [Emit (ProposalExecuted 1 True 693200)]"
    by (simp add: demo_alice_def)
  from th have ex: "executed (proposals s' 1)" by simp
  from th have "\<exists>s''. executeProposal (demo_alice 693200) 1
        (demo_committed\<lparr>voteCommitments := (\<lambda>_ _. zero_VoteCommitment),
           proposals := (proposals demo_committed)
             (1 := (proposals demo_committed 1)
                \<lparr>encryptedYesCount := FHE_asEuint32 1, encryptedNoCount := FHE_asEuint32 9\<rparr>)\<rparr>)
        = Inr (s'', [Emit (ProposalExecuted 1 True (block_timestamp (demo_alice 693200)))])"
    by blast
  then have ind: "\<not> isl (executeProposal (demo_alice 693200) 1
        (demo_committed\<lparr>voteCommitments := (\<lambda>_ _. zero_VoteCommitment),
           proposals := (proposals demo_committed)
             (1 := (proposals demo_committed 1)
                \<lparr>encryptedYesCount := FHE_asEuint32 1, encryptedNoCount := FHE_asEuint32 9\<rparr>)\<rparr>))"
    by auto
  from ok r fx ex ind show ?thesis by simp
qed

subsection \<open>The weight that is tallied\<close>

text \<open>
  Claim C10. A successful \<open>revealVote\<close> of a voter of weight \<open>w\<close> adds the handle of
  \<open>uint32(w)\<close>, that is of \<open>w mod 2^32\<close>, to the chosen counter and leaves the other one;
  the \<open>VoteRevealed\<close> event carries \<open>w\<close> itself; the two numbers agree exactly when
  \<open>w < 2^32\<close>.
\<close>

theorem revealVote_weight_truncation:
  assumes "revealVote K e proposalId support nonce s = Inr (s', fx)"
  shows "(if support
          then encryptedYesCount (proposals s' proposalId)
                 = FHE_add (encryptedYesCount (proposals s proposalId))
                     (FHE_asEuint32 (ucast (voterWeight s (msg_sender e))))
               \<and> encryptedNoCount (proposals s' proposalId)
                 = encryptedNoCount (proposals s proposalId)
          else encryptedNoCount (proposals s' proposalId)
                 = FHE_add (encryptedNoCount (proposals s proposalId))
                     (FHE_asEuint32 (ucast (voterWeight s (msg_sender e))))
               \<and> encryptedYesCount (proposals s' proposalId)
                 = encryptedYesCount (proposals s proposalId))
       \<and> unat (ucast (voterWeight s (msg_sender e)) :: uint32)
           = unat (voterWeight s (msg_sender e)) mod 2 ^ 32
       \<and> Emit (VoteRevealed proposalId (msg_sender e) support (voterWeight s (msg_sender e)))
           \<in> set fx
       \<and> (unat (ucast (voterWeight s (msg_sender e)) :: uint32)
            = unat (voterWeight s (msg_sender e))
          \<longleftrightarrow> unat (voterWeight s (msg_sender e)) < 2 ^ 32)"
proof -
  have tr: "unat (ucast w :: uint32) = unat w mod 2 ^ 32" for w :: uint256
    by (simp add: unsigned_ucast_eq take_bit_eq_mod)
  have agree: "unat (ucast w :: uint32) = unat w \<longleftrightarrow> unat w < 2 ^ 32" for w :: uint256
    unfolding tr by (metis mod_less mod_less_divisor zero_less_numeral zero_less_power)
  from assms show ?thesis
    unfolding tr
    by (auto simp: revealVote_def Let_def lib_defs mod_less
          split: if_splits sum.splits prod.splits)
qed

theorem revealVote_weight_truncation_witness:
  "\<not> isl (revealVote demo_keccak (demo_alice 700000) 1 True 7 demo_granted)
   \<and> voterWeight demo_granted 2 = 4294967301
   \<and> encryptedYesCount (proposals
        (fst (projr (revealVote demo_keccak (demo_alice 700000) 1 True 7 demo_granted))) 1)
       = FHE_add (FHE_asEuint32 0) (FHE_asEuint32 5)
   \<and> Emit (VoteRevealed 1 2 True 4294967301)
       \<in> set (snd (projr (revealVote demo_keccak (demo_alice 700000) 1 True 7 demo_granted)))"
proof -
  note ok = demo_reveal_granted
  then obtain s' fx
    where r: "revealVote demo_keccak (demo_alice 700000) 1 True 7 demo_granted = Inr (s', fx)"
    by (cases "revealVote demo_keccak (demo_alice 700000) 1 True 7 demo_granted") auto
  note th = revealVote_weight_truncation [OF r]
  have s: "msg_sender (demo_alice 700000) = 2" by (simp add: demo_alice_def)
  from th have y: "encryptedYesCount (proposals s' 1)
      = FHE_add (FHE_asEuint32 0) (FHE_asEuint32 5)"
    by (simp add: s demo_granted_fields)
  from th have ev: "Emit (VoteRevealed 1 2 True 4294967301) \<in> set fx"
    by (simp add: s demo_granted_fields)
  from ok r y ev show ?thesis by (simp add: demo_granted_fields)
qed

section \<open>Properties of the scripts\<close>

subsection \<open>Auxiliary facts\<close>

lemma of_char_lt: "of_char c < (256::nat)"
  by (cases c) simp

lemma unat_code_unit_of: "unat (code_unit_of c) = of_char c"
proof -
  have "of_char c < (65536::nat)" using of_char_lt [of c] by linarith
  then show ?thesis by (simp add: code_unit_of_def unat_of_nat)
qed

lemma inj_code_unit_of: "inj code_unit_of"
proof (rule injI)
  fix c d assume "code_unit_of c = code_unit_of d"
  then have "unat (code_unit_of c) = unat (code_unit_of d)" by simp
  then have "(of_char c :: nat) = of_char d" by (simp add: unat_code_unit_of)
  then show "c = d" using inj_of_char [where ?'a = nat] by (auto dest: injD)
qed

lemma js_eq_iff: "js a = js b \<longleftrightarrow> a = b"
  unfolding js_def by (rule inj_map_eq_map [OF inj_code_unit_of])

lemma collect_doc_block_total:
  "\<exists>r. collect_doc_block lines i d = Inr r"
proof (induction lines i d rule: collect_doc_block.induct)
  case (1 lines i docBlock)
  show ?case
  proof (cases "i < length lines \<and> str_includes (lines ! i) (js ''///'')")
    case True
    then have "collect_doc_block lines i docBlock
        = collect_doc_block lines (i + 1) (docBlock @ strip_doc_prefix (lines ! i) @ nl)"
      by (subst collect_doc_block.simps) (simp add: line_at_def)
    moreover from True
    have "\<exists>r. collect_doc_block lines (i + 1) (docBlock @ strip_doc_prefix (lines ! i) @ nl) = Inr r"
      by (intro "1.IH" [of "lines ! i"]) (simp_all add: line_at_def)
    ultimately show ?thesis by simp
  next
    case False
    then have "collect_doc_block lines i docBlock = Inr (i, docBlock)"
      by (subst collect_doc_block.simps) (auto simp: line_at_def)
    then show ?thesis by simp
  qed
qed

lemma find_declaration_total:
  "\<exists>r. find_declaration lines i d m = Inr r"
proof (induction lines i d m rule: find_declaration.induct)
  case (1 lines i docBlock natSpecMap)
  show ?case
  proof (cases "i < length lines \<and> \<not> is_declaration_line (lines ! i)")
    case True
    then have "find_declaration lines i docBlock natSpecMap
        = find_declaration lines (i + 1) docBlock natSpecMap"
      by (subst find_declaration.simps) (simp add: line_at_def)
    moreover from True
    have "\<exists>r. find_declaration lines (i + 1) docBlock natSpecMap = Inr r"
      by (intro "1.IH" [of "lines ! i"]) (simp_all add: line_at_def)
    ultimately show ?thesis by simp
  next
    case False
    then show ?thesis
      by (subst find_declaration.simps) (auto simp: line_at_def split: option.splits)
  qed
qed

lemma extract_loop_total:
  "\<exists>m'. extract_loop lines i m = Inr m'"
proof (induction lines i m rule: extract_loop.induct)
  case (1 lines i natSpecMap)
  show ?case
  proof (cases "i < length lines")
    case False
    then show ?thesis by (subst extract_loop.simps) simp
  next
    case in_range: True
    then have la: "line_at lines i = Inr (lines ! i)" by (simp add: line_at_def)
    show ?thesis
    proof (cases "str_includes (lines ! i) (js ''///'')")
      case False
      with in_range la have "extract_loop lines i natSpecMap = extract_loop lines (i + 1) natSpecMap"
        by (subst extract_loop.simps) simp
      moreover have "\<exists>m'. extract_loop lines (i + 1) natSpecMap = Inr m'"
        using in_range la False by (intro "1.IH"(2)) simp_all
      ultimately show ?thesis by simp
    next
      case True
      obtain i1 docBlock where c: "collect_doc_block lines i [] = Inr (i1, docBlock)"
        using collect_doc_block_total [of lines i "[]"] by auto
      obtain i2 m2 where f: "find_declaration lines i1 docBlock natSpecMap = Inr (i2, m2)"
        using find_declaration_total [of lines i1 docBlock natSpecMap] by auto
      from in_range la True c f
      have "extract_loop lines i natSpecMap = extract_loop lines (i2 + 1) m2"
        by (subst extract_loop.simps) simp
      moreover have "\<exists>m'. extract_loop lines (i2 + 1) m2 = Inr m'"
        using in_range la True c f by (intro "1.IH"(1)) simp_all
      ultimately show ?thesis by simp
    qed
  qed
qed

lemma extractNatSpec_total: "\<exists>m. extractNatSpec content = Inr m"
  by (simp add: extractNatSpec_def extract_loop_total)

lemma get_prop_defined: "config \<noteq> JUndefined \<Longrightarrow> \<exists>v. get_prop config k = Inr v"
  by (cases config) auto

lemma key_functions_none:
  "\<forall>f \<in> set functionNames. natSpecMap f = None \<Longrightarrow> key_functions natSpecMap = []"
  by (simp add: key_functions_def functionNames_def)

lemma smart_contract_section_cases:
  assumes "get_prop config (js ''contractFile'') = Inr cf"
      and "file_or_absent fs config (js ''contractFile'')"
  shows "\<exists>part. smart_contract_section fs cf = Inr part
     \<and> (file_at fs config (js ''contractFile'') = None \<longrightarrow> part = [])
     \<and> (\<forall>content. file_at fs config (js ''contractFile'') = Some content \<longrightarrow>
           (\<exists>m. extractNatSpec content = Inr m \<and> part = contract_text m))"
proof (cases cf)
  case (JString p)
  show ?thesis
  proof (cases "fs p")
    case None
    with JString assms show ?thesis
      by (simp add: smart_contract_section_def file_at_def)
  next
    case (Some n)
    with JString assms obtain content where n: "n = File content"
      by (cases n) (auto simp: file_or_absent_def)
    obtain m where m: "extractNatSpec content = Inr m"
      using extractNatSpec_total by blast
    with JString Some n assms show ?thesis
      by (simp add: smart_contract_section_def file_at_def)
  qed
qed (use assms in \<open>simp_all add: smart_contract_section_def file_at_def\<close>)

lemma testing_section_cases:
  assumes "get_prop config (js ''testFile'') = Inr tf"
      and "file_or_absent fs config (js ''testFile'')"
  shows "\<exists>part. testing_section fs tf = Inr part
     \<and> (file_at fs config (js ''testFile'') = None \<longrightarrow> part = [])
     \<and> (\<forall>content. file_at fs config (js ''testFile'') = Some content \<longrightarrow>
           part = testing_text (extractTestPatterns content))"
proof (cases tf)
  case (JString p)
  show ?thesis
  proof (cases "fs p")
    case None
    with JString assms show ?thesis
      by (simp add: testing_section_def file_at_def)
  next
    case (Some n)
    with JString assms obtain content where n: "n = File content"
      by (cases n) (auto simp: file_or_absent_def)
    with JString Some assms show ?thesis
      by (simp add: testing_section_def file_at_def)
  qed
qed (use assms in \<open>simp_all add: testing_section_def file_at_def\<close>)

lemma split_demo: "split_nl demo_contract
   = [js ''  /// @notice Create'', js ''  /// a proposal'', js ''  function createProposal('', js ''}'']"
  by (simp add: demo_contract_def js_def code_unit_of_def nl_def)

lemma extract_demo:
  "extractNatSpec demo_contract
     = Inr [js ''createProposal'' \<mapsto> js ''@notice Create'' @ nl @ js ''a proposal'' @ nl]"
  unfolding extractNatSpec_def split_demo
  by (simp add: extract_loop.simps collect_doc_block.simps find_declaration.simps
        line_at_def is_declaration_line_def strip_doc_prefix_def match_declaration_here_def
        match_keyword_def is_space_def is_word_def js_def code_unit_of_def nl_def)

lemma titles_demo:
  "extractTestPatterns demo_tests = [check_mark @ js '' ok'', cross_mark @ js '' bad'']"
  by (simp add: extractTestPatterns_def demo_tests_def test_titles.simps match_test_title_def
        is_line_terminator_def check_mark_def cross_mark_def js_def code_unit_of_def nl_def)

lemma testing_demo:
  "testing_section [js ''t.ts'' \<mapsto> File demo_tests] (JString (js ''t.ts''))
     = Inr (concat
         [para ''## Testing'',
          js ''The test suite includes '', js ''2'', para '' comprehensive tests covering:'',
          js ''### Success Cases ('' @ check_mark @ text_line '')'',
          js ''- '' @ check_mark @ text_line '' ok'', nl,
          js ''### Error Handling ('' @ cross_mark @ text_line '')'',
          js ''- '' @ cross_mark @ text_line '' bad'', nl,
          para ''### Running Tests'',
          text_line ''```bash'',
          text_line ''npm test'',
          para ''```'',
          para ''With coverage report:'',
          text_line ''```bash'',
          text_line ''npm run coverage'',
          para ''```''])"
proof -
  have m: "str_includes (check_mark @ js '' ok'') check_mark"
          "\<not> str_includes (check_mark @ js '' ok'') cross_mark"
          "str_includes (cross_mark @ js '' bad'') cross_mark"
          "\<not> str_includes (cross_mark @ js '' bad'') check_mark"
    by (simp_all add: check_mark_def cross_mark_def js_def code_unit_of_def)
  have d: "decimal (Suc (Suc 0)) = js ''2''"
    by (simp add: decimal.simps js_def code_unit_of_def)
  show ?thesis
    by (simp add: testing_section_def testing_text_def titles_demo m d test_group_def
          text_line_def)
qed

lemma get_prop_unlisted:
  assumes "a \<notin> set (object_keys DOCS_CONFIG)" and "a \<notin> fst ` set object_prototype"
  shows "get_prop DOCS_CONFIG a = Inr JUndefined"
proof -
  have "map_of object_prototype a = None"
    using assms(2) by (simp add: map_of_eq_None_iff)
  moreover have "map_of [(js ''fhevm-voting'', v)] a = None" for v :: jsval
    using assms(1) by (auto simp: DOCS_CONFIG_def)
  ultimately show ?thesis by (simp add: DOCS_CONFIG_def)
qed

lemma select_examples_inherited:
  "select_examples [js ''constructor''] = Some [js ''constructor'']"
  by (simp add: select_examples_def DOCS_CONFIG_def object_prototype_def js_eq_iff)

lemma scan_double_quoted_closed:
  "scan_double_quoted (''ab'' @ [CHR 0x5C] @ ''n'' @ [CHR 0x22] @ '';'') = Inr (js ''ab'' @ nl)"
  by (simp add: unescape_def js_def nl_def)

lemma load_module_fails: "load_module = Inl SyntaxError"
  by (simp add: load_module_def line_271_def)

lemma smart_contract_section_directory:
  "fs p = Some Dir \<Longrightarrow> smart_contract_section fs (JString p) = Inl EISDIR"
  by (simp add: smart_contract_section_def)

lemma main_never_runs: "main args fs = (1, fs)"
  by (simp add: main_def load_module_fails)

subsection \<open>The two registries\<close>

text \<open>
  Claim C6, as the spec states it, fails: \<open>fhe-counter\<close> is a key of \<open>EXAMPLES_MAP\<close>
  and not of \<open>DOCS_CONFIG\<close>.
\<close>

theorem registry_keys_counterexample:
  "js ''fhe-counter'' \<in> set (object_keys EXAMPLES_MAP)
   \<and> js ''fhe-counter'' \<notin> set (object_keys DOCS_CONFIG)"
  by (simp add: EXAMPLES_MAP_def DOCS_CONFIG_def js_eq_iff)

text \<open>
  Claim C6, amended. Every key of \<open>DOCS_CONFIG\<close> is a key of \<open>EXAMPLES_MAP\<close>, and for
  every key the two have in common the contract path and the test path agree.
\<close>

theorem docs_registry_within_examples:
  "set (object_keys DOCS_CONFIG) \<subseteq> set (object_keys EXAMPLES_MAP)
   \<and> (\<forall>k \<in> set (object_keys DOCS_CONFIG) \<inter> set (object_keys EXAMPLES_MAP).
        \<exists>d x c t.
          get_prop DOCS_CONFIG k = Inr d \<and> get_prop EXAMPLES_MAP k = Inr x
        \<and> get_prop d (js ''contractFile'') = Inr (JString c)
        \<and> get_prop x (js ''contract'') = Inr (JString c)
        \<and> get_prop d (js ''testFile'') = Inr (JString t)
        \<and> get_prop x (js ''test'') = Inr (JString t))"
  by (simp add: EXAMPLES_MAP_def DOCS_CONFIG_def js_eq_iff)

theorem docs_registry_within_examples_witness:
  "js ''fhevm-voting'' \<in> set (object_keys DOCS_CONFIG) \<inter> set (object_keys EXAMPLES_MAP)
   \<and> (\<exists>d x.
          get_prop DOCS_CONFIG (js ''fhevm-voting'') = Inr d
        \<and> get_prop EXAMPLES_MAP (js ''fhevm-voting'') = Inr x
        \<and> get_prop d (js ''contractFile'') = get_prop x (js ''contract'')
        \<and> get_prop d (js ''testFile'') = get_prop x (js ''test''))"
proof -
  have k: "js ''fhevm-voting'' \<in> set (object_keys DOCS_CONFIG) \<inter> set (object_keys EXAMPLES_MAP)"
    by (simp add: EXAMPLES_MAP_def DOCS_CONFIG_def js_eq_iff)
  from docs_registry_within_examples have
    "\<forall>k \<in> set (object_keys DOCS_CONFIG) \<inter> set (object_keys EXAMPLES_MAP).
        \<exists>d x c t.
          get_prop DOCS_CONFIG k = Inr d \<and> get_prop EXAMPLES_MAP k = Inr x
        \<and> get_prop d (js ''contractFile'') = Inr (JString c)
        \<and> get_prop x (js ''contract'') = Inr (JString c)
        \<and> get_prop d (js ''testFile'') = Inr (JString t)
        \<and> get_prop x (js ''test'') = Inr (JString t)"
    by (rule conjunct2)
  from bspec [OF this k] obtain d x c t where
    "get_prop DOCS_CONFIG (js ''fhevm-voting'') = Inr d"
    "get_prop EXAMPLES_MAP (js ''fhevm-voting'') = Inr x"
    "get_prop d (js ''contractFile'') = Inr (JString c)"
    "get_prop x (js ''contract'') = Inr (JString c)"
    "get_prop d (js ''testFile'') = Inr (JString t)"
    "get_prop x (js ''test'') = Inr (JString t)"
    by blast
  with k show ?thesis by auto
qed

subsection \<open>An argument that is no example name\<close>



subsection \<open>generateDocumentation does not return\<close>

text \<open>
  Claim C8 says that \<open>generateDocumentation\<close> returns a Markdown string for every
  configuration and every state of the file system. The code does not: the module the
  function lives in does not compile, because the double-quoted literal of line 271 is
  never closed (\<open>load_module_fails\<close>), so no call returns a document, whatever the
  configuration and the files.
\<close>

theorem generateDocumentation_never_returns:
  "generateDocumentation fs exampleName config = Inl SyntaxError"
  by (simp add: generateDocumentation_def load_module_fails)

end
